theory Spec2Isabelle
  imports Main "HOL-Library.Word"
begin

section \<open>LiTest: the assertion engine and the run loop of litest.hpp\<close>

text \<open>
  The development follows \<^verbatim>\<open>src/src/litest.hpp\<close>. The pass and fail counters are
  32-bit words read as signed numbers by \<open>sint\<close>: they are C++ \<^verbatim>\<open>int\<close>s that every
  assertion increments, and \<open>+ 1\<close> on a word wraps from \<open>2147483647\<close> to \<open>-2147483648\<close>
  as the compiled increment does. The other \<^verbatim>\<open>int\<close> values (line numbers, requested
  indices, the index of a test and the test counter) are mathematical integers: they are
  compared, copied, or moved by one per registered or started test. Wall-clock readings
  are not modelled; a duration is only known to be written or not.
\<close>

subsection \<open>Enumerations and exceptions\<close>

datatype AssertionResult = Passed | Failed

datatype OnAssertionFailure = Continue | Abort

text \<open>\<^verbatim>\<open>TestSuite::Mode\<close>; the constructors carry a prefix because \<^verbatim>\<open>Continue\<close> is taken.\<close>

datatype Mode = Mode_Continue | Mode_Throw

text \<open>
  What a \<^verbatim>\<open>throw\<close> can raise, as far as the handlers of the library tell objects apart:
  the two exception classes of the library, any other class derived from
  \<^verbatim>\<open>std::exception\<close> (class name and \<^verbatim>\<open>what()\<close>), and a thrown object that is not a
  \<^verbatim>\<open>std::exception\<close> (its type name), such as \<^verbatim>\<open>throw 4\<close>.
\<close>

datatype fault =
    TestAbortException int string
  | AssertionFailureException string
  | StdException string string
  | OtherThrow string

text \<open>
  \<^verbatim>\<open>catch (std::exception &e)\<close> accepts the first three and reads \<^verbatim>\<open>e.what()\<close>;
  \<open>None\<close> means that only \<^verbatim>\<open>catch (...)\<close> accepts the object.
\<close>

fun what :: "fault \<Rightarrow> string option" where
  "what (TestAbortException lineNumber msg) = Some msg"
| "what (AssertionFailureException msg) = Some msg"
| "what (StdException cls msg) = Some msg"
| "what (OtherThrow ty) = None"

text \<open>One call of a \<^verbatim>\<open>std::function<T(void)>\<close>: it returns a value or it throws.\<close>

datatype 'a call = Returns 'a | Raises fault

subsection \<open>Values and their descriptions\<close>

text \<open>
  The value types an \<^verbatim>\<open>equal<T>\<close> assertion is instantiated with, by the overload of
  \<^verbatim>\<open>descriptionIfAvailable\<close> they select: a type with \<^verbatim>\<open>operator<<\<close> (an integer, a
  string), an iterable container of integers, and a type with \<^verbatim>\<open>operator==\<close> only
  (\<^verbatim>\<open>NonPrintableType\<close> of the example program).
\<close>

datatype val = IntV int | StrV string | SeqV "int list" | PlainV int

function show_nat :: "nat \<Rightarrow> string" where
  "show_nat n = (if n < 10 then [''0123456789'' ! n]
                 else show_nat (n div 10) @ [''0123456789'' ! (n mod 10)])"
  by pat_completeness auto
termination
  by (relation "measure id") auto

declare show_nat.simps [simp del]

definition show_int :: "int \<Rightarrow> string" where
  "show_int i = (if i < 0 then CHR ''-'' # show_nat (nat (- i)) else show_nat (nat i))"

fun descriptionIfAvailable :: "val \<Rightarrow> string" where
  "descriptionIfAvailable (IntV i) = show_int i"
| "descriptionIfAvailable (StrV s) = s"
| "descriptionIfAvailable (SeqV xs) =
     ''{ '' @ concat (map (\<lambda>x. show_int x @ '', '') xs) @ '' }''"
| "descriptionIfAvailable (PlainV v) = ''N/A''"

subsection \<open>Tests, statistics and formatter calls\<close>

text \<open>
  A test body is the sequence of statements it issues: the five assertions (the free
  functions behind the \<^verbatim>\<open>LT_\<close> macros, with their arguments in the order callable,
  \<^verbatim>\<open>onFail\<close>, \<^verbatim>\<open>exprstr\<close>, \<^verbatim>\<open>line\<close>), the two pseudo-assertions that only write to the
  formatter, and a \<^verbatim>\<open>throw\<close> outside any assertion. The handler type of
  \<^verbatim>\<open>throwsType<ThrownType>\<close> is the set of objects \<^verbatim>\<open>catch (ThrownType &e)\<close> accepts.
  A callable is given by what its call does; it does not touch the suite. A body is
  straight-line: it has no handler of its own for what its statements throw.
\<close>

datatype stmt =
    Check "bool call" OnAssertionFailure string int
  | Equal val "val call" OnAssertionFailure string int
  | ThrowsType "fault \<Rightarrow> bool" "unit call" OnAssertionFailure string int
  | Throws "unit call" OnAssertionFailure string int
  | GenerateFailure string OnAssertionFailure int
  | Message int string
  | PrintExpr int string val
  | Throw fault

datatype seconds = Indeterminate | Elapsed

record Test =
  fileName :: string
  name :: string
  func :: "stmt list"
  index :: int
  aborted :: bool
  duration :: seconds

record TestStats =
  passes :: "32 word"
  fails :: "32 word"

text \<open>
  The calls a \<^verbatim>\<open>TestResultFormatter\<close> receives, under the names of its member functions
  without the \<^verbatim>\<open>format\<close> prefix. The two suite hooks receive the suite itself; the
  call records the name and the total statistics the built-in formatters read from it.
\<close>

datatype event =
    TestHeader Test
  | TestFooter Test TestStats
  | AbortedTest int string
  | TestSuiteStart string TestStats
  | TestSuiteEnd string TestStats
  | PassedCheck int string
  | PassedThrow int string
  | PassedEquals int string string
  | FormatMessage int string
  | FormatExpr int string string
  | UnexpectedException int string string
  | FailedCheck int string
  | FailedEquals int string string string
  | FailedThrow int string
  | ManualFailure int string

text \<open>
  Names Isabelle reserves are changed: \<open>fileName\<close> is the member \<^verbatim>\<open>file\<close>,
  \<open>outputLog\<close> the member \<^verbatim>\<open>output\<close>, \<open>stats\<close> and \<open>totalStats\<close> the members
  \<^verbatim>\<open>stats_\<close> and \<^verbatim>\<open>totalStats_\<close>. \<open>outputLog\<close> is the sequence of calls made on the
  formatter of the current run, that is, what the run has written to its stream so far.
\<close>

record TestSuite =
  outputLog :: "event list"
  mode :: Mode
  suiteName :: string
  tests :: "Test list"
  counter :: int
  stats :: "TestStats list"
  totalStats :: TestStats

definition newTestStats :: TestStats where
  "newTestStats = \<lparr>passes = 0, fails = 0\<rparr>"

text \<open>The constructor; \<open>mode\<close> has no initialiser in the class and is set by every run.\<close>

definition newTestSuite :: "string \<Rightarrow> TestSuite" where
  "newTestSuite nm =
     \<lparr>outputLog = [], mode = Mode_Continue, suiteName = nm, tests = [],
      counter = - 1, stats = [], totalStats = newTestStats\<rparr>"

definition addTest :: "string \<Rightarrow> stmt list \<Rightarrow> string \<Rightarrow> TestSuite \<Rightarrow> TestSuite" where
  "addTest nm fn fl s =
     s\<lparr>tests := tests s @
          [\<lparr>fileName = fl, name = nm, func = fn, index = int (length (tests s)) + 1,
            aborted = False, duration = Indeterminate\<rparr>]\<rparr>"

definition emit :: "event \<Rightarrow> TestSuite \<Rightarrow> TestSuite" where
  "emit e s = s\<lparr>outputLog := outputLog s @ [e]\<rparr>"

definition startTest :: "TestSuite \<Rightarrow> TestSuite" where
  "startTest s = s\<lparr>counter := counter s + 1, stats := stats s @ [newTestStats]\<rparr>"

text \<open>
  \<^verbatim>\<open>stats_[counter]\<close> is defined only for a counter inside the vector; the guard keeps the
  model from reading or writing another slot where C++ leaves the behaviour undefined.
\<close>

definition counter_in_range :: "TestSuite \<Rightarrow> bool" where
  "counter_in_range s = (0 \<le> counter s \<and> counter s < int (length (stats s)))"

definition passed :: "TestSuite \<Rightarrow> AssertionResult \<times> TestSuite" where
  "passed s =
     (Passed,
      s\<lparr>totalStats := (totalStats s)\<lparr>passes := passes (totalStats s) + 1\<rparr>,
        stats := (if counter_in_range s
                   then (stats s)[nat (counter s) :=
                          (stats s ! nat (counter s))
                            \<lparr>passes := passes (stats s ! nat (counter s)) + 1\<rparr>]
                   else stats s)\<rparr>)"

definition failed :: "TestSuite \<Rightarrow> AssertionResult \<times> TestSuite" where
  "failed s =
     (Failed,
      s\<lparr>totalStats := (totalStats s)\<lparr>fails := fails (totalStats s) + 1\<rparr>,
        stats := (if counter_in_range s
                   then (stats s)[nat (counter s) :=
                          (stats s ! nat (counter s))
                            \<lparr>fails := fails (stats s ! nat (counter s)) + 1\<rparr>]
                   else stats s)\<rparr>)"

definition currentTestStats :: "TestSuite \<Rightarrow> TestStats" where
  "currentTestStats s =
     (if counter_in_range s then stats s ! nat (counter s) else newTestStats)"

definition totalTestStats :: "TestSuite \<Rightarrow> TestStats" where
  "totalTestStats s = totalStats s"

subsection \<open>The assertion functions\<close>

text \<open>
  Each function returns what the C++ function does at its exit, \<open>Inl\<close> the exception
  it throws or \<open>Inr\<close> the value it returns, with the suite as it has left it.
\<close>

type_synonym outcome = "(fault + AssertionResult) \<times> TestSuite"

definition reportException ::
    "TestSuite \<Rightarrow> int \<Rightarrow> string \<Rightarrow> string \<Rightarrow> OnAssertionFailure \<Rightarrow> outcome" where
  "reportException s ln exprstr msg onFail =
     (let s1 = snd (failed s);
          s2 = emit (UnexpectedException ln exprstr msg) s1
      in if mode s2 = Mode_Throw
         then (Inl (AssertionFailureException (''Unexpected exception in: '' @ exprstr)), s2)
         else if onFail = Abort
         then (Inl (TestAbortException ln ''Caught in assertion''), s2)
         else (Inr Failed, s2))"

text \<open>
  The body of the \<^verbatim>\<open>try\<close> block of \<^verbatim>\<open>equal\<close>. The two \<^verbatim>\<open>throw\<close> statements of the
  failure branch stand inside the block.
\<close>

definition equal_try ::
    "TestSuite \<Rightarrow> val \<Rightarrow> val call \<Rightarrow> OnAssertionFailure \<Rightarrow> string \<Rightarrow> int \<Rightarrow> outcome" where
  "equal_try s v fn onFail exprstr ln =
     (case fn of
        Raises f \<Rightarrow> (Inl f, s)
      | Returns res \<Rightarrow>
          if \<not> (res = v)
          then (let s1 = snd (failed s);
                    s2 = emit (FailedEquals ln exprstr (descriptionIfAvailable v)
                                 (descriptionIfAvailable res)) s1
                in if mode s2 = Mode_Throw
                   then (Inl (AssertionFailureException (''Unexpected value in: '' @ exprstr)), s2)
                   else if onFail = Abort
                   then (Inl (TestAbortException ln ''Equal failed.''), s2)
                   else (Inr Failed, s2))
          else (let s1 = snd (passed s);
                    s2 = emit (PassedEquals ln exprstr (descriptionIfAvailable v)) s1
                in (Inr Passed, s2)))"

text \<open>The \<^verbatim>\<open>try\<close> block with its two handlers, which call \<^verbatim>\<open>reportException\<close> with
  the default \<^verbatim>\<open>onFail\<close>, \<^verbatim>\<open>Abort\<close>.\<close>

definition equal ::
    "TestSuite \<Rightarrow> val \<Rightarrow> val call \<Rightarrow> OnAssertionFailure \<Rightarrow> string \<Rightarrow> int \<Rightarrow> outcome" where
  "equal s v fn onFail exprstr ln =
     (case equal_try s v fn onFail exprstr ln of
        (Inl f, s') \<Rightarrow>
          (case what f of
             Some w \<Rightarrow> reportException s' ln exprstr w Abort
           | None \<Rightarrow> reportException s' ln exprstr ''N/A'' Abort)
      | (Inr r, s') \<Rightarrow> (Inr r, s'))"

definition check ::
    "TestSuite \<Rightarrow> bool call \<Rightarrow> OnAssertionFailure \<Rightarrow> string \<Rightarrow> int \<Rightarrow> outcome" where
  "check s fn onFail exprstr ln =
     (case fn of
        Raises f \<Rightarrow>
          (case what f of
             Some w \<Rightarrow> reportException s ln exprstr w Abort
           | None \<Rightarrow> reportException s ln exprstr ''N/A'' Abort)
      | Returns res \<Rightarrow>
          if \<not> res
          then (let s1 = snd (failed s);
                    s2 = emit (FailedCheck ln exprstr) s1
                in if mode s2 = Mode_Throw
                   then (Inl (AssertionFailureException (''Broken assertion in: '' @ exprstr)), s2)
                   else if onFail = Abort
                   then (Inl (TestAbortException ln ''Check failed.''), s2)
                   else (Inr Failed, s2))
          else (let s1 = snd (passed s);
                    s2 = emit (PassedCheck ln exprstr) s1
                in (Inr Passed, s2)))"

definition throwsType ::
    "TestSuite \<Rightarrow> (fault \<Rightarrow> bool) \<Rightarrow> unit call \<Rightarrow> OnAssertionFailure \<Rightarrow> string \<Rightarrow> int
       \<Rightarrow> outcome" where
  "throwsType s isThrownType fn onFail exprstr ln =
     (case fn of
        Raises f \<Rightarrow>
          if isThrownType f
          then (let s1 = snd (passed s);
                    s2 = emit (PassedThrow ln exprstr) s1
                in (Inr Passed, s2))
          else (case what f of
                  Some w \<Rightarrow> reportException s ln exprstr w Abort
                | None \<Rightarrow>
                    reportException s ln exprstr
                      ''Uncaught exception in exception assertion'' Abort)
      | Returns u \<Rightarrow>
          (let s1 = snd (failed s);
               s2 = emit (FailedThrow ln exprstr) s1
           in if mode s2 = Mode_Throw
              then (Inl (AssertionFailureException (''No exception in '' @ exprstr)), s2)
              else if onFail = Abort
              then (Inl (TestAbortException ln ''No exception in throw assertion.''), s2)
              else (Inr Failed, s2)))"

definition throws ::
    "TestSuite \<Rightarrow> unit call \<Rightarrow> OnAssertionFailure \<Rightarrow> string \<Rightarrow> int \<Rightarrow> outcome" where
  "throws s fn onFail exprstr ln =
     (case fn of
        Raises f \<Rightarrow>
          (let s1 = snd (passed s);
               s2 = emit (PassedThrow ln exprstr) s1
           in (Inr Passed, s2))
      | Returns u \<Rightarrow>
          (let s1 = snd (failed s);
               s2 = emit (FailedThrow ln exprstr) s1
           in if mode s2 = Mode_Throw
              then (Inl (AssertionFailureException (''No exception in: '' @ exprstr)), s2)
              else if onFail = Abort
              then (Inl (TestAbortException ln ''No exception in throw assertion.''), s2)
              else (Inr Failed, s2)))"

definition generateFailure ::
    "TestSuite \<Rightarrow> string \<Rightarrow> OnAssertionFailure \<Rightarrow> int \<Rightarrow> outcome" where
  "generateFailure s reason onFail ln =
     (let s1 = snd (failed s);
          s2 = emit (ManualFailure ln reason) s1
      in if mode s2 = Mode_Throw
         then (Inl (AssertionFailureException (''Manual failure, reason: '' @ reason)), s2)
         else if onFail = Abort
         then (Inl (TestAbortException ln ''Manual failure''), s2)
         else (Inr Failed, s2))"

subsection \<open>Test bodies\<close>

text \<open>
  A statement of a test body discards the \<^verbatim>\<open>AssertionResult\<close>, as the macros do; what
  is left is the exception that leaves the statement, if any.
\<close>

definition unwinding :: "outcome \<Rightarrow> fault option \<times> TestSuite" where
  "unwinding r = (case r of (Inl f, s) \<Rightarrow> (Some f, s) | (Inr a, s) \<Rightarrow> (None, s))"

fun exec_stmt :: "stmt \<Rightarrow> TestSuite \<Rightarrow> fault option \<times> TestSuite" where
  "exec_stmt (Check fn onFail exprstr ln) s = unwinding (check s fn onFail exprstr ln)"
| "exec_stmt (Equal v fn onFail exprstr ln) s = unwinding (equal s v fn onFail exprstr ln)"
| "exec_stmt (ThrowsType isThrownType fn onFail exprstr ln) s =
     unwinding (throwsType s isThrownType fn onFail exprstr ln)"
| "exec_stmt (Throws fn onFail exprstr ln) s = unwinding (throws s fn onFail exprstr ln)"
| "exec_stmt (GenerateFailure reason onFail ln) s = unwinding (generateFailure s reason onFail ln)"
| "exec_stmt (Message ln msg) s = (None, emit (FormatMessage ln msg) s)"
| "exec_stmt (PrintExpr ln exprstr v) s =
     (None, emit (FormatExpr ln exprstr (descriptionIfAvailable v)) s)"
| "exec_stmt (Throw f) s = (Some f, s)"

text \<open>Statements run in source order; an exception ends the body at once.\<close>

fun run_body :: "stmt list \<Rightarrow> TestSuite \<Rightarrow> fault option \<times> TestSuite" where
  "run_body [] s = (None, s)"
| "run_body (st # rest) s =
     (case exec_stmt st s of
        (Some f, s') \<Rightarrow> (Some f, s')
      | (None, s') \<Rightarrow> run_body rest s')"

subsection \<open>The run loop\<close>

text \<open>
  The \<^verbatim>\<open>try\<close> statement of \<^verbatim>\<open>runSome\<close> around one test, on the local copy \<^verbatim>\<open>test\<close>:
  the result is the exception that leaves the statement, the copy and the suite. The
  three handlers are tried in the order of the source.
\<close>

definition try_test :: "Test \<Rightarrow> TestSuite \<Rightarrow> fault option \<times> Test \<times> TestSuite" where
  "try_test test s =
     (case run_body (func test) s of
        (None, s') \<Rightarrow> (None, test\<lparr>duration := Elapsed\<rparr>, s')
      | (Some (TestAbortException lineNumber msg), s') \<Rightarrow>
          (None, test\<lparr>aborted := True\<rparr>, emit (AbortedTest lineNumber msg) s')
      | (Some f, s') \<Rightarrow>
          (case what f of
             Some w \<Rightarrow>
               (None, test\<lparr>aborted := True\<rparr>,
                emit (AbortedTest 0 (''Uncaught exception: '' @ w)) s')
           | None \<Rightarrow>
               (None, test\<lparr>aborted := True\<rparr>,
                emit (AbortedTest 0 ''Uncaught exception outside of assertion.'') s')))"

text \<open>One iteration of the loop over \<^verbatim>\<open>testIdx\<close>.\<close>

definition runSome_iteration :: "int \<Rightarrow> TestSuite \<Rightarrow> fault option \<times> TestSuite" where
  "runSome_iteration idx s =
     (if \<not> (idx \<ge> 0 \<and> idx < int (length (tests s))) then (None, s)
      else (let test = tests s ! nat idx;
                s1 = startTest s;
                s2 = emit (TestHeader test) s1
            in case try_test test s2 of
                 (Some f, test', s3) \<Rightarrow> (Some f, s3)
               | (None, test', s3) \<Rightarrow>
                   (None, emit (TestFooter test' (currentTestStats s3)) s3)))"

fun runSome_loop :: "int list \<Rightarrow> TestSuite \<Rightarrow> fault option \<times> TestSuite" where
  "runSome_loop [] s = (None, s)"
| "runSome_loop (idx # rest) s =
     (case runSome_iteration idx s of
        (Some f, s') \<Rightarrow> (Some f, s')
      | (None, s') \<Rightarrow> runSome_loop rest s')"

text \<open>
  The statements of \<^verbatim>\<open>runSome\<close> before the loop: the mode, a new formatter, the reset
  of the total statistics and the suite-start call.
\<close>

definition runSome_begin :: "Mode \<Rightarrow> TestSuite \<Rightarrow> TestSuite" where
  "runSome_begin m s =
     (let s1 = s\<lparr>mode := m, outputLog := [], totalStats := newTestStats\<rparr>
      in emit (TestSuiteStart (suiteName s1) (totalTestStats s1)) s1)"

text \<open>
  \<open>fst\<close> of the result is the exception that leaves \<^verbatim>\<open>runSome\<close>; when there is none the
  suite-end call is made. (The formatter is deleted afterwards; the log keeps what it
  wrote.)
\<close>

definition runSome :: "Mode \<Rightarrow> int list \<Rightarrow> TestSuite \<Rightarrow> fault option \<times> TestSuite" where
  "runSome m testIdx s =
     (case runSome_loop testIdx (runSome_begin m s) of
        (Some f, s') \<Rightarrow> (Some f, s')
      | (None, s') \<Rightarrow> (None, emit (TestSuiteEnd (suiteName s') (totalTestStats s')) s'))"

text \<open>\<^verbatim>\<open>run\<close> fills \<^verbatim>\<open>allIndexes\<close> with \<open>0, 1, \<dots>\<close> by \<^verbatim>\<open>iota\<close>.\<close>

definition run :: "Mode \<Rightarrow> TestSuite \<Rightarrow> fault option \<times> TestSuite" where
  "run m s = runSome m (map int [0 ..< length (tests s)]) s"

subsection \<open>Registration sequences and the exits of an assertion\<close>

text \<open>A sequence of \<^verbatim>\<open>addTest\<close> calls, each given by name, body and file.\<close>

fun addTests :: "(string \<times> stmt list \<times> string) list \<Rightarrow> TestSuite \<Rightarrow> TestSuite" where
  "addTests [] s = s"
| "addTests ((nm, fn, fl) # others) s = addTests others (addTest nm fn fl s)"

text \<open>
  The branch an assertion statement takes in its function above. \<open>failing\<close>: the
  callable returned and the branch that calls \<^verbatim>\<open>failed()\<close> in the function itself is
  taken. \<open>erroring\<close>: the callable threw and a handler calls \<^verbatim>\<open>reportException\<close>.
  \<open>passing\<close>: the branch that calls \<^verbatim>\<open>passed()\<close> is taken.
\<close>

fun failing :: "stmt \<Rightarrow> bool" where
  "failing (Check fn onFail exprstr ln) = (case fn of Returns res \<Rightarrow> \<not> res | Raises f \<Rightarrow> False)"
| "failing (Equal v fn onFail exprstr ln) =
     (case fn of Returns res \<Rightarrow> \<not> (res = v) | Raises f \<Rightarrow> False)"
| "failing (ThrowsType isThrownType fn onFail exprstr ln) =
     (case fn of Returns u \<Rightarrow> True | Raises f \<Rightarrow> False)"
| "failing (Throws fn onFail exprstr ln) = (case fn of Returns u \<Rightarrow> True | Raises f \<Rightarrow> False)"
| "failing (GenerateFailure reason onFail ln) = True"
| "failing (Message ln msg) = False"
| "failing (PrintExpr ln exprstr v) = False"
| "failing (Throw f) = False"

fun erroring :: "stmt \<Rightarrow> bool" where
  "erroring (Check fn onFail exprstr ln) = (case fn of Returns res \<Rightarrow> False | Raises f \<Rightarrow> True)"
| "erroring (Equal v fn onFail exprstr ln) = (case fn of Returns res \<Rightarrow> False | Raises f \<Rightarrow> True)"
| "erroring (ThrowsType isThrownType fn onFail exprstr ln) =
     (case fn of Returns u \<Rightarrow> False | Raises f \<Rightarrow> \<not> isThrownType f)"
| "erroring (Throws fn onFail exprstr ln) = False"
| "erroring (GenerateFailure reason onFail ln) = False"
| "erroring (Message ln msg) = False"
| "erroring (PrintExpr ln exprstr v) = False"
| "erroring (Throw f) = False"

fun passing :: "stmt \<Rightarrow> bool" where
  "passing (Check fn onFail exprstr ln) = (case fn of Returns res \<Rightarrow> res | Raises f \<Rightarrow> False)"
| "passing (Equal v fn onFail exprstr ln) = (case fn of Returns res \<Rightarrow> res = v | Raises f \<Rightarrow> False)"
| "passing (ThrowsType isThrownType fn onFail exprstr ln) =
     (case fn of Returns u \<Rightarrow> False | Raises f \<Rightarrow> isThrownType f)"
| "passing (Throws fn onFail exprstr ln) = (case fn of Returns u \<Rightarrow> False | Raises f \<Rightarrow> True)"
| "passing (GenerateFailure reason onFail ln) = False"
| "passing (Message ln msg) = False"
| "passing (PrintExpr ln exprstr v) = False"
| "passing (Throw f) = False"

text \<open>The \<^verbatim>\<open>onFail\<close>, \<^verbatim>\<open>line\<close> and \<^verbatim>\<open>exprstr\<close> arguments of an assertion statement.\<close>

fun onFail_of :: "stmt \<Rightarrow> OnAssertionFailure option" where
  "onFail_of (Check fn onFail exprstr ln) = Some onFail"
| "onFail_of (Equal v fn onFail exprstr ln) = Some onFail"
| "onFail_of (ThrowsType isThrownType fn onFail exprstr ln) = Some onFail"
| "onFail_of (Throws fn onFail exprstr ln) = Some onFail"
| "onFail_of (GenerateFailure reason onFail ln) = Some onFail"
| "onFail_of (Message ln msg) = None"
| "onFail_of (PrintExpr ln exprstr v) = None"
| "onFail_of (Throw f) = None"

fun line_of :: "stmt \<Rightarrow> int" where
  "line_of (Check fn onFail exprstr ln) = ln"
| "line_of (Equal v fn onFail exprstr ln) = ln"
| "line_of (ThrowsType isThrownType fn onFail exprstr ln) = ln"
| "line_of (Throws fn onFail exprstr ln) = ln"
| "line_of (GenerateFailure reason onFail ln) = ln"
| "line_of (Message ln msg) = ln"
| "line_of (PrintExpr ln exprstr v) = ln"
| "line_of (Throw f) = 0"

fun exprstr_of :: "stmt \<Rightarrow> string" where
  "exprstr_of (Check fn onFail exprstr ln) = exprstr"
| "exprstr_of (Equal v fn onFail exprstr ln) = exprstr"
| "exprstr_of (ThrowsType isThrownType fn onFail exprstr ln) = exprstr"
| "exprstr_of (Throws fn onFail exprstr ln) = exprstr"
| "exprstr_of (GenerateFailure reason onFail ln) = reason"
| "exprstr_of (Message ln msg) = msg"
| "exprstr_of (PrintExpr ln exprstr v) = exprstr"
| "exprstr_of (Throw f) = []"

text \<open>The object the callable of an assertion statement throws, if it throws.\<close>

fun thrown :: "stmt \<Rightarrow> fault option" where
  "thrown (Check fn onFail exprstr ln) = (case fn of Returns res \<Rightarrow> None | Raises f \<Rightarrow> Some f)"
| "thrown (Equal v fn onFail exprstr ln) = (case fn of Returns res \<Rightarrow> None | Raises f \<Rightarrow> Some f)"
| "thrown (ThrowsType isThrownType fn onFail exprstr ln) =
     (case fn of Returns u \<Rightarrow> None | Raises f \<Rightarrow> Some f)"
| "thrown (Throws fn onFail exprstr ln) = (case fn of Returns u \<Rightarrow> None | Raises f \<Rightarrow> Some f)"
| "thrown (GenerateFailure reason onFail ln) = None"
| "thrown (Message ln msg) = None"
| "thrown (PrintExpr ln exprstr v) = None"
| "thrown (Throw f) = None"

text \<open>The elementwise sum of statistics, and the statistics of the slots from \<open>n\<close> on.\<close>

definition sumStats :: "TestStats list \<Rightarrow> TestStats" where
  "sumStats xs = \<lparr>passes = sum_list (map passes xs), fails = sum_list (map fails xs)\<rparr>"

definition statsSince :: "nat \<Rightarrow> TestSuite \<Rightarrow> TestStats" where
  "statsSince n s = sumStats (drop n (stats s))"

text \<open>
  The invariant of the private members \<^verbatim>\<open>counter\<close> and \<^verbatim>\<open>stats_\<close>: the constructor
  sets them to \<open>-1\<close> and the empty vector, and \<^verbatim>\<open>startTest\<close>, the only function that
  changes either, adds one to both.
\<close>

definition counter_synced :: "TestSuite \<Rightarrow> bool" where
  "counter_synced s = (counter s = int (length (stats s)) - 1)"

text \<open>
  The total statistics agree with the slots of \<^verbatim>\<open>stats_\<close> from \<open>n\<close> on; \<open>n\<close> is the length
  of \<^verbatim>\<open>stats_\<close> when the run started, so these are the slots the run has made. Between two
  tests of a run the slots from \<open>n\<close> on may be none yet; within a test there is one at
  least, the current one.
\<close>

definition totals_agree :: "nat \<Rightarrow> TestSuite \<Rightarrow> bool" where
  "totals_agree n s = (totalStats s = statsSince n s)"

definition between_tests :: "nat \<Rightarrow> TestSuite \<Rightarrow> bool" where
  "between_tests n s = (counter_synced s \<and> n \<le> length (stats s) \<and> totals_agree n s)"

definition within_test :: "nat \<Rightarrow> TestSuite \<Rightarrow> bool" where
  "within_test n s = (counter_synced s \<and> n < length (stats s) \<and> totals_agree n s)"

text \<open>
  \<open>totals_agree\<close> compares words, so its sums wrap as the counters do. The same sums
  as numbers: the signed values of the per-test counters added up in the integers.
  \<open>sums_fit\<close> says that these numbers are values of a C++ \<^verbatim>\<open>int\<close>.
\<close>

definition sumPasses :: "nat \<Rightarrow> TestSuite \<Rightarrow> int" where
  "sumPasses n s = sum_list (map (\<lambda>x. sint (passes x)) (drop n (stats s)))"

definition sumFails :: "nat \<Rightarrow> TestSuite \<Rightarrow> int" where
  "sumFails n s = sum_list (map (\<lambda>x. sint (fails x)) (drop n (stats s)))"

definition sums_fit :: "nat \<Rightarrow> TestSuite \<Rightarrow> bool" where
  "sums_fit n s =
     (- 2147483648 \<le> sumPasses n s \<and> sumPasses n s \<le> 2147483647 \<and>
      - 2147483648 \<le> sumFails n s \<and> sumFails n s \<le> 2147483647)"

definition totals_agree_as_numbers :: "nat \<Rightarrow> TestSuite \<Rightarrow> bool" where
  "totals_agree_as_numbers n s =
     (sint (passes (totalStats s)) = sumPasses n s \<and>
      sint (fails (totalStats s)) = sumFails n s)"

text \<open>
  A mismatch in \<^verbatim>\<open>equal\<close> whose failure branch throws, which it does inside the \<^verbatim>\<open>try\<close>
  block: in mode \<^verbatim>\<open>Throw\<close>, or under \<^verbatim>\<open>Abort\<close>.
\<close>

fun mismatch_throws :: "Mode \<Rightarrow> stmt \<Rightarrow> bool" where
  "mismatch_throws m (Equal v fn onFail exprstr ln) =
     ((case fn of Returns res \<Rightarrow> \<not> (res = v) | Raises f \<Rightarrow> False) \<and>
      (m = Mode_Throw \<or> onFail = Abort))"
| "mismatch_throws m (Check fn onFail exprstr ln) = False"
| "mismatch_throws m (ThrowsType isThrownType fn onFail exprstr ln) = False"
| "mismatch_throws m (Throws fn onFail exprstr ln) = False"
| "mismatch_throws m (GenerateFailure reason onFail ln) = False"
| "mismatch_throws m (Message ln msg) = False"
| "mismatch_throws m (PrintExpr ln exprstr v) = False"
| "mismatch_throws m (Throw f) = False"

subsection \<open>What the operations leave unchanged\<close>

lemma emit_fields [simp]:
  "mode (emit e s) = mode s" "tests (emit e s) = tests s" "counter (emit e s) = counter s"
  "stats (emit e s) = stats s" "totalStats (emit e s) = totalStats s"
  "suiteName (emit e s) = suiteName s" "outputLog (emit e s) = outputLog s @ [e]"
  by (simp_all add: emit_def)

lemma passed_fields [simp]:
  "mode (snd (passed s)) = mode s" "tests (snd (passed s)) = tests s"
  "counter (snd (passed s)) = counter s" "length (stats (snd (passed s))) = length (stats s)"
  "suiteName (snd (passed s)) = suiteName s" "outputLog (snd (passed s)) = outputLog s"
  by (simp_all add: passed_def)

lemma failed_fields [simp]:
  "mode (snd (failed s)) = mode s" "tests (snd (failed s)) = tests s"
  "counter (snd (failed s)) = counter s" "length (stats (snd (failed s))) = length (stats s)"
  "suiteName (snd (failed s)) = suiteName s" "outputLog (snd (failed s)) = outputLog s"
  by (simp_all add: failed_def)

lemma startTest_fields [simp]:
  "mode (startTest s) = mode s" "tests (startTest s) = tests s"
  "counter (startTest s) = counter s + 1" "stats (startTest s) = stats s @ [newTestStats]"
  "totalStats (startTest s) = totalStats s"
  "suiteName (startTest s) = suiteName s" "outputLog (startTest s) = outputLog s"
  by (simp_all add: startTest_def)

lemmas assertion_defs =
  reportException_def equal_try_def equal_def check_def throwsType_def throws_def
  generateFailure_def unwinding_def

lemma exec_stmt_frame:
  "mode (snd (exec_stmt st s)) = mode s \<and> tests (snd (exec_stmt st s)) = tests s \<and>
   counter (snd (exec_stmt st s)) = counter s \<and>
   length (stats (snd (exec_stmt st s))) = length (stats s) \<and>
   suiteName (snd (exec_stmt st s)) = suiteName s"
  by (cases st) (simp_all add: assertion_defs Let_def split: call.splits option.splits)

lemma run_body_frame:
  "mode (snd (run_body body s)) = mode s \<and> tests (snd (run_body body s)) = tests s \<and>
   counter (snd (run_body body s)) = counter s \<and>
   length (stats (snd (run_body body s))) = length (stats s) \<and>
   suiteName (snd (run_body body s)) = suiteName s"
proof (induction body arbitrary: s)
  case Nil
  show ?case by simp
next
  case (Cons st rest)
  obtain r s' where ex: "exec_stmt st s = (r, s')" by (cases "exec_stmt st s")
  have fr: "mode s' = mode s \<and> tests s' = tests s \<and> counter s' = counter s \<and>
            length (stats s') = length (stats s) \<and> suiteName s' = suiteName s"
    using exec_stmt_frame [of st s] ex by simp
  show ?case
  proof (cases r)
    case None
    then show ?thesis using ex fr Cons.IH [of s'] by simp
  next
    case (Some f)
    then show ?thesis using ex fr by simp
  qed
qed

lemma try_test_contains: "fst (try_test test s) = None"
  by (simp add: try_test_def split: prod.splits option.splits fault.splits)

lemma try_test_frame:
  "mode (snd (snd (try_test test s))) = mode s \<and>
   tests (snd (snd (try_test test s))) = tests s \<and>
   counter (snd (snd (try_test test s))) = counter s \<and>
   length (stats (snd (snd (try_test test s)))) = length (stats s) \<and>
   suiteName (snd (snd (try_test test s))) = suiteName s"
  using run_body_frame [of "func test" s]
  by (auto simp add: try_test_def split: prod.splits option.splits fault.splits)

lemma runSome_iteration_contains: "fst (runSome_iteration idx s) = None"
proof (cases "idx \<ge> 0 \<and> idx < int (length (tests s))")
  case False
  then show ?thesis by (simp add: runSome_iteration_def)
next
  case True
  let ?s2 = "emit (TestHeader (tests s ! nat idx)) (startTest s)"
  obtain r t' s3 where tt: "try_test (tests s ! nat idx) ?s2 = (r, t', s3)"
    by (cases "try_test (tests s ! nat idx) ?s2") auto
  have "r = None"
    using try_test_contains [of "tests s ! nat idx" ?s2] tt by simp
  then show ?thesis
    using True tt by (simp add: runSome_iteration_def Let_def)
qed

lemma runSome_iteration_frame:
  "mode (snd (runSome_iteration idx s)) = mode s \<and>
   tests (snd (runSome_iteration idx s)) = tests s \<and>
   suiteName (snd (runSome_iteration idx s)) = suiteName s"
proof (cases "idx \<ge> 0 \<and> idx < int (length (tests s))")
  case False
  then show ?thesis by (simp add: runSome_iteration_def)
next
  case True
  let ?s2 = "emit (TestHeader (tests s ! nat idx)) (startTest s)"
  obtain r t' s3 where tt: "try_test (tests s ! nat idx) ?s2 = (r, t', s3)"
    by (cases "try_test (tests s ! nat idx) ?s2") auto
  have "mode s3 = mode s \<and> tests s3 = tests s \<and> suiteName s3 = suiteName s"
    using try_test_frame [of "tests s ! nat idx" ?s2] tt by simp
  then show ?thesis
    using True tt by (simp add: runSome_iteration_def Let_def split: option.splits)
qed

lemma runSome_loop_step:
  "runSome_loop (idx # rest) s = runSome_loop rest (snd (runSome_iteration idx s))"
  using runSome_iteration_contains [of idx s]
  by (cases "runSome_iteration idx s") (simp split: option.splits)

lemma runSome_loop_contains: "fst (runSome_loop testIdx s) = None"
  by (induction testIdx arbitrary: s) (simp_all add: runSome_loop_step del: runSome_loop.simps(2))

lemma runSome_loop_frame:
  "mode (snd (runSome_loop testIdx s)) = mode s \<and>
   tests (snd (runSome_loop testIdx s)) = tests s \<and>
   suiteName (snd (runSome_loop testIdx s)) = suiteName s"
  by (induction testIdx arbitrary: s)
     (simp_all add: runSome_loop_step runSome_iteration_frame del: runSome_loop.simps(2))

lemma runSome_begin_fields [simp]:
  "mode (runSome_begin m s) = m" "tests (runSome_begin m s) = tests s"
  "counter (runSome_begin m s) = counter s" "stats (runSome_begin m s) = stats s"
  "totalStats (runSome_begin m s) = newTestStats"
  "suiteName (runSome_begin m s) = suiteName s"
  "outputLog (runSome_begin m s) = [TestSuiteStart (suiteName s) newTestStats]"
  by (simp_all add: runSome_begin_def totalTestStats_def Let_def)

lemma runSome_contains: "fst (runSome m testIdx s) = None"
  using runSome_loop_contains [of testIdx "runSome_begin m s"]
  by (cases "runSome_loop testIdx (runSome_begin m s)") (simp add: runSome_def)

lemma runSome_unfold:
  "snd (runSome m testIdx s) =
     (let s' = snd (runSome_loop testIdx (runSome_begin m s))
      in emit (TestSuiteEnd (suiteName s') (totalTestStats s')) s')"
  using runSome_loop_contains [of testIdx "runSome_begin m s"]
  by (cases "runSome_loop testIdx (runSome_begin m s)") (simp add: runSome_def)

lemma runSome_tests: "tests (snd (runSome m testIdx s)) = tests s"
  by (simp add: runSome_unfold Let_def runSome_loop_frame)

subsection \<open>Registration\<close>

lemma addTest_tests [simp]:
  "tests (addTest nm fn fl s) = tests s @
     [\<lparr>fileName = fl, name = nm, func = fn, index = int (length (tests s)) + 1,
       aborted = False, duration = Indeterminate\<rparr>]"
  by (simp add: addTest_def)




lemma newTestSuite_tests [simp]: "tests (newTestSuite nm) = []"
  by (simp add: newTestSuite_def)

subsection \<open>Requested indices\<close>





lemma runSome_loop_foldl:
  "snd (runSome_loop testIdx s) = foldl (\<lambda>a i. snd (runSome_iteration i a)) s testIdx"
  by (induction testIdx arbitrary: s)
     (simp_all add: runSome_loop_step del: runSome_loop.simps(2))

lemma runSome_foldl:
  "runSome m testIdx s =
     (None,
      let s' = foldl (\<lambda>a i. snd (runSome_iteration i a)) (runSome_begin m s) testIdx
      in emit (TestSuiteEnd (suiteName s') (totalTestStats s')) s')"
  using runSome_contains [of m testIdx s] runSome_unfold [of m testIdx s]
  by (cases "runSome m testIdx s") (simp add: runSome_loop_foldl)




subsection \<open>Evaluating concrete runs\<close>

lemmas run_eval =
  run_def runSome_def runSome_begin_def runSome_iteration_def try_test_def
  assertion_defs passed_def failed_def emit_def startTest_def addTest_def newTestSuite_def
  currentTestStats_def counter_in_range_def newTestStats_def totalTestStats_def Let_def

subsection \<open>The registered tests after a run\<close>

lemma run_tests: "tests (snd (run m s)) = tests s"
  by (simp add: run_def runSome_tests)

text \<open>
  Claim C9 says that a run writes \<^verbatim>\<open>aborted\<close> and \<^verbatim>\<open>duration\<close> of each executed test in the
  suite's collection. \<^verbatim>\<open>runSome\<close> copies the test (\<^verbatim>\<open>auto test = this->tests[index]\<close>) and
  writes the copy; by \<open>runSome_tests\<close> and \<open>run_tests\<close> the collection is the same before
  and after every run. The run below has a test that is cut short at line 10 and a test
  that returns: the footer calls receive the copies with \<open>aborted = True\<close> and with
  \<open>duration = Elapsed\<close>, and both registered tests still have \<open>aborted = False\<close> and the
  duration never written.
\<close>

theorem run_leaves_registered_tests_unwritten:
  "tests (snd (run Mode_Continue
      (addTests [(''cut short'', [Check (Returns False) Abort ''x'' 10], ''t.cpp''),
                 (''returns'', [Check (Returns True) Continue ''y'' 20], ''t.cpp'')]
         (newTestSuite ''S'')))) =
     [\<lparr>fileName = ''t.cpp'', name = ''cut short'', func = [Check (Returns False) Abort ''x'' 10],
       index = 1, aborted = False, duration = Indeterminate\<rparr>,
      \<lparr>fileName = ''t.cpp'', name = ''returns'', func = [Check (Returns True) Continue ''y'' 20],
       index = 2, aborted = False, duration = Indeterminate\<rparr>] \<and>
   outputLog (snd (run Mode_Continue
      (addTests [(''cut short'', [Check (Returns False) Abort ''x'' 10], ''t.cpp''),
                 (''returns'', [Check (Returns True) Continue ''y'' 20], ''t.cpp'')]
         (newTestSuite ''S'')))) =
     [TestSuiteStart ''S'' \<lparr>passes = 0, fails = 0\<rparr>,
      TestHeader \<lparr>fileName = ''t.cpp'', name = ''cut short'',
        func = [Check (Returns False) Abort ''x'' 10],
        index = 1, aborted = False, duration = Indeterminate\<rparr>,
      FailedCheck 10 ''x'',
      AbortedTest 10 ''Check failed.'',
      TestFooter \<lparr>fileName = ''t.cpp'', name = ''cut short'',
        func = [Check (Returns False) Abort ''x'' 10],
        index = 1, aborted = True, duration = Indeterminate\<rparr> \<lparr>passes = 0, fails = 1\<rparr>,
      TestHeader \<lparr>fileName = ''t.cpp'', name = ''returns'',
        func = [Check (Returns True) Continue ''y'' 20],
        index = 2, aborted = False, duration = Indeterminate\<rparr>,
      PassedCheck 20 ''y'',
      TestFooter \<lparr>fileName = ''t.cpp'', name = ''returns'',
        func = [Check (Returns True) Continue ''y'' 20],
        index = 2, aborted = False, duration = Elapsed\<rparr> \<lparr>passes = 1, fails = 0\<rparr>,
      TestSuiteEnd ''S'' \<lparr>passes = 1, fails = 1\<rparr>]"
  by (simp add: run_eval)

subsection \<open>Bodies, statement by statement\<close>

lemma currentTestStats_emit [simp]: "currentTestStats (emit e s) = currentTestStats s"
  by (simp add: currentTestStats_def counter_in_range_def)

lemma run_body_append:
  "run_body (xs @ ys) s =
     (case run_body xs s of (None, s') \<Rightarrow> run_body ys s' | (Some f, s') \<Rightarrow> (Some f, s'))"
proof (induction xs arbitrary: s)
  case Nil
  show ?case by simp
next
  case (Cons x xs)
  show ?case
  proof (cases "exec_stmt x s")
    case (Pair r s')
    then show ?thesis using Cons.IH [of s'] by (cases r) simp_all
  qed
qed

lemma run_body_prefix_then:
  assumes "fst (run_body pre s) = None"
  shows "run_body (pre @ st # rest) s =
           (case exec_stmt st (snd (run_body pre s)) of
              (None, s') \<Rightarrow> run_body rest s' | (Some f, s') \<Rightarrow> (Some f, s'))"
proof (cases "run_body pre s")
  case (Pair r s1)
  then have "r = None" using assms by simp
  then show ?thesis using Pair by (simp add: run_body_append)
qed

lemma failing_abort_signal:
  assumes "mode s = Mode_Continue" and "failing st" and "onFail_of st = Some Abort"
  shows "\<exists>msg. fst (exec_stmt st s) = Some (TestAbortException (line_of st) msg)"
  using assms
  by (cases st) (auto simp add: assertion_defs Let_def split: call.splits)

lemma failing_continue_resumes:
  assumes "mode s = Mode_Continue" and "failing st" and "onFail_of st = Some Continue"
  shows "\<exists>ev. exec_stmt st s = (None, emit ev (snd (failed s)))"
  using assms
  by (cases st) (auto simp add: assertion_defs Let_def split: call.splits)

lemma try_test_abort:
  assumes "run_body (func test) s = (Some (TestAbortException ln msg), s')"
  shows "try_test test s = (None, test\<lparr>aborted := True\<rparr>, emit (AbortedTest ln msg) s')"
  using assms by (simp add: try_test_def)

lemma runSome_iteration_unfold:
  assumes "0 \<le> idx" and "idx < int (length (tests s))"
      and "try_test (tests s ! nat idx) (emit (TestHeader (tests s ! nat idx)) (startTest s)) =
             (None, test', s3)"
  shows "runSome_iteration idx s = (None, emit (TestFooter test' (currentTestStats s3)) s3)"
  using assms by (simp add: runSome_iteration_def Let_def)

subsection \<open>A failure under the Abort policy\<close>

text \<open>
  Claim C1. In a run in mode \<^verbatim>\<open>Continue\<close>, let the body of the requested test be
  \<open>pre @ st # rest\<close>, where the statements \<open>pre\<close> end without an exception and \<open>st\<close> is an
  assertion of any of the five kinds that fails with \<^verbatim>\<open>onFail = Abort\<close>. Then \<open>st\<close> throws
  a \<^verbatim>\<open>TestAbortException\<close> with the line number of \<open>st\<close>; the body ends there, in the
  state \<open>st\<close> has left, so no statement of \<open>rest\<close> is evaluated; and the iteration of
  \<^verbatim>\<open>runSome\<close> calls \<^verbatim>\<open>formatAbortedTest\<close> with that line number and then
  \<^verbatim>\<open>formatTestFooter\<close> with the test of the run loop, whose \<^verbatim>\<open>aborted\<close> is \<open>True\<close>.
\<close>

theorem abort_policy_failure_cuts_test_short:
  assumes "0 \<le> idx" and "idx < int (length (tests s))"
      and "func (tests s ! nat idx) = pre @ st # rest"
      and "fst (run_body pre (emit (TestHeader (tests s ! nat idx)) (startTest s))) = None"
      and "mode s = Mode_Continue" and "failing st" and "onFail_of st = Some Abort"
  shows "\<exists>msg s1 s'.
           s1 = snd (run_body pre (emit (TestHeader (tests s ! nat idx)) (startTest s))) \<and>
           exec_stmt st s1 = (Some (TestAbortException (line_of st) msg), s') \<and>
           run_body (pre @ st # rest) (emit (TestHeader (tests s ! nat idx)) (startTest s)) =
             (Some (TestAbortException (line_of st) msg), s') \<and>
           runSome_iteration idx s =
             (None,
              emit (TestFooter ((tests s ! nat idx)\<lparr>aborted := True\<rparr>) (currentTestStats s'))
                (emit (AbortedTest (line_of st) msg) s'))"
proof -
  let ?t = "tests s ! nat idx"
  let ?s2 = "emit (TestHeader ?t) (startTest s)"
  let ?s1 = "snd (run_body pre ?s2)"
  have m: "mode ?s1 = Mode_Continue"
    using run_body_frame [of pre ?s2] assms(5) by simp
  obtain msg where sig: "fst (exec_stmt st ?s1) = Some (TestAbortException (line_of st) msg)"
    using failing_abort_signal [OF m assms(6) assms(7)] by blast
  obtain s' where ex: "exec_stmt st ?s1 = (Some (TestAbortException (line_of st) msg), s')"
    using sig by (cases "exec_stmt st ?s1") simp
  have body: "run_body (pre @ st # rest) ?s2 = (Some (TestAbortException (line_of st) msg), s')"
    using run_body_prefix_then [OF assms(4), of st rest] ex by simp
  have "try_test ?t ?s2 =
          (None, ?t\<lparr>aborted := True\<rparr>, emit (AbortedTest (line_of st) msg) s')"
    using try_test_abort [of ?t ?s2] body assms(3) by simp
  from runSome_iteration_unfold [OF assms(1) assms(2) this]
  have "runSome_iteration idx s =
          (None,
           emit (TestFooter (?t\<lparr>aborted := True\<rparr>) (currentTestStats s'))
             (emit (AbortedTest (line_of st) msg) s'))"
    by simp
  then show ?thesis using ex body by blast
qed


theorem abort_policy_failure_cuts_test_short_witness:
  "\<exists>msg s'.
     runSome_iteration 0
       (addTest ''C'' [Check (Returns False) Abort ''x'' 10, Check (Returns True) Continue ''y'' 11]
          ''t.cpp'' (newTestSuite ''S'')) =
       (None,
        emit (TestFooter
                \<lparr>fileName = ''t.cpp'', name = ''C'',
                 func = [Check (Returns False) Abort ''x'' 10, Check (Returns True) Continue ''y'' 11],
                 index = 1, aborted = True, duration = Indeterminate\<rparr>
                (currentTestStats s'))
          (emit (AbortedTest 10 msg) s'))"
  using abort_policy_failure_cuts_test_short
          [of 0 "addTest ''C'' [Check (Returns False) Abort ''x'' 10,
                                Check (Returns True) Continue ''y'' 11] ''t.cpp'' (newTestSuite ''S'')"
              "[]" "Check (Returns False) Abort ''x'' 10" "[Check (Returns True) Continue ''y'' 11]"]
  by (simp add: addTest_def newTestSuite_def) blast

subsection \<open>A failure under the Continue policy\<close>

text \<open>
  Claim C7. In mode \<^verbatim>\<open>Continue\<close> an assertion of any kind that fails with
  \<^verbatim>\<open>onFail = Continue\<close> throws nothing: it calls \<^verbatim>\<open>failed()\<close>, makes one formatter call
  and returns, and the body goes on with the statements after it. In particular a suite
  with one test whose body is a passing \<^verbatim>\<open>check\<close> followed by a failing \<^verbatim>\<open>check\<close> at
  \<^verbatim>\<open>Continue\<close> ends the test normally: the footer receives the statistics
  \<open>passes = 1, fails = 1\<close> and a test whose \<^verbatim>\<open>aborted\<close> is \<open>False\<close>.
\<close>

theorem continue_policy_failure_resumes:
  assumes "mode s = Mode_Continue" and "failing st" and "onFail_of st = Some Continue"
  shows "fst (exec_stmt st s) = None \<and>
         run_body (st # rest) s = run_body rest (snd (exec_stmt st s)) \<and>
         (\<exists>ev. snd (exec_stmt st s) = emit ev (snd (failed s))) \<and>
         outputLog (snd (run Mode_Continue
           (addTest nm [Check (Returns True) onFail1 e1 l1, Check (Returns False) Continue e2 l2]
              fl (newTestSuite sn)))) =
           [TestSuiteStart sn \<lparr>passes = 0, fails = 0\<rparr>,
            TestHeader \<lparr>fileName = fl, name = nm,
              func = [Check (Returns True) onFail1 e1 l1, Check (Returns False) Continue e2 l2],
              index = 1, aborted = False, duration = Indeterminate\<rparr>,
            PassedCheck l1 e1,
            FailedCheck l2 e2,
            TestFooter \<lparr>fileName = fl, name = nm,
              func = [Check (Returns True) onFail1 e1 l1, Check (Returns False) Continue e2 l2],
              index = 1, aborted = False, duration = Elapsed\<rparr> \<lparr>passes = 1, fails = 1\<rparr>,
            TestSuiteEnd sn \<lparr>passes = 1, fails = 1\<rparr>]"
proof -
  obtain ev where ex: "exec_stmt st s = (None, emit ev (snd (failed s)))"
    using failing_continue_resumes [OF assms] by blast
  have a: "fst (exec_stmt st s) = None" using ex by simp
  have b: "run_body (st # rest) s = run_body rest (snd (exec_stmt st s))" using ex by simp
  have c: "\<exists>ev. snd (exec_stmt st s) = emit ev (snd (failed s))" using ex by auto
  have d: "outputLog (snd (run Mode_Continue
           (addTest nm [Check (Returns True) onFail1 e1 l1, Check (Returns False) Continue e2 l2]
              fl (newTestSuite sn)))) =
           [TestSuiteStart sn \<lparr>passes = 0, fails = 0\<rparr>,
            TestHeader \<lparr>fileName = fl, name = nm,
              func = [Check (Returns True) onFail1 e1 l1, Check (Returns False) Continue e2 l2],
              index = 1, aborted = False, duration = Indeterminate\<rparr>,
            PassedCheck l1 e1,
            FailedCheck l2 e2,
            TestFooter \<lparr>fileName = fl, name = nm,
              func = [Check (Returns True) onFail1 e1 l1, Check (Returns False) Continue e2 l2],
              index = 1, aborted = False, duration = Elapsed\<rparr> \<lparr>passes = 1, fails = 1\<rparr>,
            TestSuiteEnd sn \<lparr>passes = 1, fails = 1\<rparr>]"
    by (simp add: run_eval)
  show ?thesis using a b c d by blast
qed

theorem continue_policy_failure_resumes_witness:
  "run_body [Equal (IntV 5) (Returns (IntV 6)) Continue ''x'' 3, Message 4 ''still running'']
     (startTest (runSome_begin Mode_Continue (newTestSuite ''S''))) =
   run_body [Message 4 ''still running'']
     (snd (exec_stmt (Equal (IntV 5) (Returns (IntV 6)) Continue ''x'' 3)
        (startTest (runSome_begin Mode_Continue (newTestSuite ''S'')))))"
proof -
  have m: "mode (startTest (runSome_begin Mode_Continue (newTestSuite ''S''))) = Mode_Continue"
    by simp
  have f: "failing (Equal (IntV 5) (Returns (IntV 6)) Continue ''x'' 3)" by simp
  have p: "onFail_of (Equal (IntV 5) (Returns (IntV 6)) Continue ''x'' 3) = Some Continue"
    by simp
  show ?thesis
    using continue_policy_failure_resumes [OF m f p, of "[Message 4 ''still running'']"]
    by blast
qed

subsection \<open>Counting\<close>

lemma failed_total [simp]:
  "fails (totalStats (snd (failed s))) = fails (totalStats s) + 1"
  "passes (totalStats (snd (failed s))) = passes (totalStats s)"
  by (simp_all add: failed_def)

lemma passed_total [simp]:
  "passes (totalStats (snd (passed s))) = passes (totalStats s) + 1"
  "fails (totalStats (snd (passed s))) = fails (totalStats s)"
  by (simp_all add: passed_def)

lemma counter_in_range_nat: "counter_in_range s \<Longrightarrow> nat (counter s) < length (stats s)"
  unfolding counter_in_range_def by arith

lemma failed_current:
  assumes "counter_in_range s"
  shows "fails (currentTestStats (snd (failed s))) = fails (currentTestStats s) + 1"
    and "passes (currentTestStats (snd (failed s))) = passes (currentTestStats s)"
  using assms counter_in_range_nat [OF assms]
  by (simp_all add: failed_def currentTestStats_def counter_in_range_def)

lemma passed_current:
  assumes "counter_in_range s"
  shows "passes (currentTestStats (snd (passed s))) = passes (currentTestStats s) + 1"
    and "fails (currentTestStats (snd (passed s))) = fails (currentTestStats s)"
  using assms counter_in_range_nat [OF assms]
  by (simp_all add: passed_def currentTestStats_def counter_in_range_def)

lemma counter_in_range_cong:
  "counter s' = counter s \<Longrightarrow> length (stats s') = length (stats s) \<Longrightarrow>
   counter_in_range s' = counter_in_range s"
  by (simp add: counter_in_range_def)

lemma counter_in_range_startTest: "counter_synced s \<Longrightarrow> counter_in_range (startTest s)"
  by (simp add: counter_synced_def counter_in_range_def)

lemma counter_in_range_body:
  assumes "counter_synced s"
  shows "counter_in_range (snd (run_body pre (emit ev (startTest s))))"
proof -
  have "counter_in_range (emit ev (startTest s))"
    using counter_in_range_startTest [OF assms] by (simp add: counter_in_range_def)
  then show ?thesis
    using run_body_frame [of pre "emit ev (startTest s)"]
          counter_in_range_cong [of "snd (run_body pre (emit ev (startTest s)))"
                                    "emit ev (startTest s)"]
    by simp
qed

subsection \<open>An unexpected exception in an assertion\<close>

lemma erroring_exec:
  assumes "erroring st" and "thrown st = Some f"
  shows "\<exists>msg.
           exec_stmt st s =
             (Some (if mode s = Mode_Throw
                    then AssertionFailureException (''Unexpected exception in: '' @ exprstr_of st)
                    else TestAbortException (line_of st) ''Caught in assertion''),
              emit (UnexpectedException (line_of st) (exprstr_of st) msg) (snd (failed s))) \<and>
           (case what f of
              Some w \<Rightarrow> msg = w
            | None \<Rightarrow> msg = ''N/A'' \<or> msg = ''Uncaught exception in exception assertion'')"
  using assms
  by (cases st) (auto simp add: assertion_defs Let_def split: call.splits option.splits)

lemma try_test_uncaught:
  assumes "run_body (func test) s = (Some f, s')"
      and "\<forall>ln msg. f \<noteq> TestAbortException ln msg"
  shows "try_test test s =
           (None, test\<lparr>aborted := True\<rparr>,
            emit (AbortedTest 0
                    (case what f of
                       Some w \<Rightarrow> ''Uncaught exception: '' @ w
                     | None \<Rightarrow> ''Uncaught exception outside of assertion.'')) s')"
  using assms by (cases f) (simp_all add: try_test_def)

text \<open>
  Claim C2. Let \<open>st\<close> be an assertion whose callable throws an object \<open>f\<close> that the
  assertion is not testing for (\<^verbatim>\<open>check\<close>, \<^verbatim>\<open>equal\<close>: any object; \<^verbatim>\<open>throwsType\<close>: an
  object of another type), reached in the body of the requested test, with any
  \<^verbatim>\<open>onFail\<close> and in either mode. Then \<^verbatim>\<open>failed()\<close> is called once, so the total and the
  current fail counters grow by one; \<^verbatim>\<open>formatUnexpectedException\<close> is called with the line,
  the expression and \<^verbatim>\<open>what()\<close> of \<open>f\<close>, or a placeholder when \<open>f\<close> is no
  \<^verbatim>\<open>std::exception\<close>; an exception leaves the assertion (\<^verbatim>\<open>TestAbortException\<close> in mode
  \<^verbatim>\<open>Continue\<close>, \<^verbatim>\<open>AssertionFailureException\<close> in mode \<^verbatim>\<open>Throw\<close>); and the iteration of
  \<^verbatim>\<open>runSome\<close> calls \<^verbatim>\<open>formatAbortedTest\<close> and hands the footer the test of the run loop
  with \<^verbatim>\<open>aborted\<close> set. The theorem has no hypothesis on \<^verbatim>\<open>onFail\<close>: the handlers call
  \<^verbatim>\<open>reportException\<close> with its default, \<^verbatim>\<open>Abort\<close>.
\<close>

theorem unexpected_exception_aborts_test:
  assumes "0 \<le> idx" and "idx < int (length (tests s))"
      and "func (tests s ! nat idx) = pre @ st # rest"
      and "fst (run_body pre (emit (TestHeader (tests s ! nat idx)) (startTest s))) = None"
      and "erroring st" and "thrown st = Some f" and "counter_synced s"
  shows "\<exists>msg sig ln reason s1 s'.
           s1 = snd (run_body pre (emit (TestHeader (tests s ! nat idx)) (startTest s))) \<and>
           exec_stmt st s1 = (Some sig, s') \<and>
           s' = emit (UnexpectedException (line_of st) (exprstr_of st) msg) (snd (failed s1)) \<and>
           (case what f of
              Some w \<Rightarrow> msg = w
            | None \<Rightarrow> msg = ''N/A'' \<or> msg = ''Uncaught exception in exception assertion'') \<and>
           fails (totalStats s') = fails (totalStats s1) + 1 \<and>
           fails (currentTestStats s') = fails (currentTestStats s1) + 1 \<and>
           sig = (if mode s = Mode_Throw
                  then AssertionFailureException (''Unexpected exception in: '' @ exprstr_of st)
                  else TestAbortException (line_of st) ''Caught in assertion'') \<and>
           (ln, reason) =
             (if mode s = Mode_Throw
              then (0, ''Uncaught exception: '' @ ''Unexpected exception in: '' @ exprstr_of st)
              else (line_of st, ''Caught in assertion'')) \<and>
           run_body (pre @ st # rest) (emit (TestHeader (tests s ! nat idx)) (startTest s)) =
             (Some sig, s') \<and>
           runSome_iteration idx s =
             (None,
              emit (TestFooter ((tests s ! nat idx)\<lparr>aborted := True\<rparr>) (currentTestStats s'))
                (emit (AbortedTest ln reason) s'))"
proof -
  let ?t = "tests s ! nat idx"
  let ?s2 = "emit (TestHeader ?t) (startTest s)"
  let ?s1 = "snd (run_body pre ?s2)"
  let ?sig = "if mode s = Mode_Throw
              then AssertionFailureException (''Unexpected exception in: '' @ exprstr_of st)
              else TestAbortException (line_of st) ''Caught in assertion''"
  have m: "mode ?s1 = mode s"
    using run_body_frame [of pre ?s2] by simp
  have cr: "counter_in_range ?s1"
    by (rule counter_in_range_body [OF assms(7)])
  obtain msg where
    ex: "exec_stmt st ?s1 =
           (Some ?sig, emit (UnexpectedException (line_of st) (exprstr_of st) msg) (snd (failed ?s1)))"
    and ms: "case what f of
               Some w \<Rightarrow> msg = w
             | None \<Rightarrow> msg = ''N/A'' \<or> msg = ''Uncaught exception in exception assertion''"
    using erroring_exec [OF assms(5) assms(6), of ?s1] m by auto
  let ?s' = "emit (UnexpectedException (line_of st) (exprstr_of st) msg) (snd (failed ?s1))"
  have tot: "fails (totalStats ?s') = fails (totalStats ?s1) + 1" by simp
  have cur: "fails (currentTestStats ?s') = fails (currentTestStats ?s1) + 1"
    using failed_current(1) [OF cr] by simp
  have body: "run_body (pre @ st # rest) ?s2 = (Some ?sig, ?s')"
    using run_body_prefix_then [OF assms(4), of st rest] ex by simp
  have it: "runSome_iteration idx s =
             (None,
              emit (TestFooter (?t\<lparr>aborted := True\<rparr>) (currentTestStats ?s'))
                (emit (AbortedTest
                   (if mode s = Mode_Throw then 0 else line_of st)
                   (if mode s = Mode_Throw
                    then ''Uncaught exception: '' @ ''Unexpected exception in: '' @ exprstr_of st
                    else ''Caught in assertion'')) ?s'))"
  proof (cases "mode s = Mode_Throw")
    case True
    have "try_test ?t ?s2 =
            (None, ?t\<lparr>aborted := True\<rparr>,
             emit (AbortedTest 0
                     (''Uncaught exception: '' @ ''Unexpected exception in: '' @ exprstr_of st)) ?s')"
      using try_test_uncaught [of ?t ?s2 ?sig ?s'] body assms(3) True by simp
    from runSome_iteration_unfold [OF assms(1) assms(2) this]
    show ?thesis using True by simp
  next
    case False
    have "try_test ?t ?s2 =
            (None, ?t\<lparr>aborted := True\<rparr>,
             emit (AbortedTest (line_of st) ''Caught in assertion'') ?s')"
      using try_test_abort [of ?t ?s2 "line_of st" "''Caught in assertion''" ?s'] body assms(3) False
      by simp
    from runSome_iteration_unfold [OF assms(1) assms(2) this]
    show ?thesis using False by simp
  qed
  show ?thesis
    apply (rule exI [of _ msg])
    apply (rule exI [of _ ?sig])
    apply (rule exI [of _ "if mode s = Mode_Throw then 0 else line_of st"])
    apply (rule exI [of _ "if mode s = Mode_Throw
                    then ''Uncaught exception: '' @ ''Unexpected exception in: '' @ exprstr_of st
                    else ''Caught in assertion''"])
    apply (rule exI [of _ ?s1])
    apply (rule exI [of _ ?s'])
    using ex ms tot cur body it
    apply (simp only: simp_thms if_distrib)
    apply (simp split: if_splits)
    done
qed


theorem unexpected_exception_aborts_test_witness:
  "\<exists>s'.
     runSome_iteration 0
       (runSome_begin Mode_Continue
          (addTest ''E''
             [Check (Raises (StdException ''std::logic_error'' ''ERROR!'')) Continue ''x'' 5,
              Check (Returns True) Continue ''y'' 6]
             ''t.cpp'' (newTestSuite ''S''))) =
       (None,
        emit (TestFooter
                \<lparr>fileName = ''t.cpp'', name = ''E'',
                 func = [Check (Raises (StdException ''std::logic_error'' ''ERROR!'')) Continue ''x'' 5,
                         Check (Returns True) Continue ''y'' 6],
                 index = 1, aborted = True, duration = Indeterminate\<rparr>
                (currentTestStats s'))
          (emit (AbortedTest 5 ''Caught in assertion'') s'))"
proof -
  let ?st = "Check (Raises (StdException ''std::logic_error'' ''ERROR!'')) Continue ''x'' 5"
  let ?rest = "[Check (Returns True) Continue ''y'' 6]"
  let ?S = "runSome_begin Mode_Continue (addTest ''E'' (?st # ?rest) ''t.cpp'' (newTestSuite ''S''))"
  have h1: "(0::int) \<le> 0" by simp
  have h2: "0 < int (length (tests ?S))" by simp
  have h3: "func (tests ?S ! nat 0) = [] @ ?st # ?rest" by simp
  have h4: "fst (run_body [] (emit (TestHeader (tests ?S ! nat 0)) (startTest ?S))) = None"
    by simp
  have h5: "erroring ?st" by simp
  have h6: "thrown ?st = Some (StdException ''std::logic_error'' ''ERROR!'')" by simp
  have h7: "counter_synced ?S" by (simp add: counter_synced_def addTest_def newTestSuite_def)
  from unexpected_exception_aborts_test [OF h1 h2 h3 h4 h5 h6 h7]
  obtain ln reason s' where
    lr: "(ln, reason) =
           (if mode ?S = Mode_Throw
            then (0, ''Uncaught exception: '' @ ''Unexpected exception in: '' @ exprstr_of ?st)
            else (line_of ?st, ''Caught in assertion''))"
    and it: "runSome_iteration 0 ?S =
           (None,
            emit (TestFooter ((tests ?S ! nat 0)\<lparr>aborted := True\<rparr>) (currentTestStats s'))
              (emit (AbortedTest ln reason) s'))"
    by blast
  have "ln = 5 \<and> reason = ''Caught in assertion''" using lr by simp
  then have "runSome_iteration 0 ?S =
       (None,
        emit (TestFooter
                \<lparr>fileName = ''t.cpp'', name = ''E'', func = ?st # ?rest,
                 index = 1, aborted = True, duration = Indeterminate\<rparr>
                (currentTestStats s'))
          (emit (AbortedTest 5 ''Caught in assertion'') s'))"
    using it by simp
  then show ?thesis by (rule exI [of _ s'])
qed

subsection \<open>Mode Throw\<close>

lemma throw_mode_signal:
  assumes "mode s = Mode_Throw" and "failing st \<or> erroring st"
  shows "\<exists>msg. fst (exec_stmt st s) = Some (AssertionFailureException msg)"
  using assms
  by (cases st) (auto simp add: assertion_defs Let_def split: call.splits option.splits)

lemma run_contains: "fst (run m s) = None"
  by (simp add: run_def runSome_contains)

text \<open>
  Claim C3 says that in mode \<^verbatim>\<open>Throw\<close> the \<^verbatim>\<open>AssertionFailureException\<close> of a failed
  assertion leaves \<^verbatim>\<open>run\<close>. It does not: the class derives from \<^verbatim>\<open>std::exception\<close>, and
  the second handler of \<^verbatim>\<open>runSome\<close> catches it. In the run below the first test fails at
  line 3; no exception leaves \<^verbatim>\<open>run\<close>, the failure is reported as an uncaught exception
  at the unknown line, the second test runs and the suite-end call is made.
\<close>

theorem throw_mode_signal_leaves_run_counterexample:
  "fst (run Mode_Throw
      (addTests [(''fails'', [Check (Returns False) Continue ''x'' 3,
                              Check (Returns True) Continue ''z'' 4], ''t.cpp''),
                 (''next'', [Check (Returns True) Continue ''y'' 7], ''t.cpp'')]
         (newTestSuite ''S''))) = None \<and>
   outputLog (snd (run Mode_Throw
      (addTests [(''fails'', [Check (Returns False) Continue ''x'' 3,
                              Check (Returns True) Continue ''z'' 4], ''t.cpp''),
                 (''next'', [Check (Returns True) Continue ''y'' 7], ''t.cpp'')]
         (newTestSuite ''S'')))) =
     [TestSuiteStart ''S'' \<lparr>passes = 0, fails = 0\<rparr>,
      TestHeader \<lparr>fileName = ''t.cpp'', name = ''fails'',
        func = [Check (Returns False) Continue ''x'' 3, Check (Returns True) Continue ''z'' 4],
        index = 1, aborted = False, duration = Indeterminate\<rparr>,
      FailedCheck 3 ''x'',
      AbortedTest 0 ''Uncaught exception: Broken assertion in: x'',
      TestFooter \<lparr>fileName = ''t.cpp'', name = ''fails'',
        func = [Check (Returns False) Continue ''x'' 3, Check (Returns True) Continue ''z'' 4],
        index = 1, aborted = True, duration = Indeterminate\<rparr> \<lparr>passes = 0, fails = 1\<rparr>,
      TestHeader \<lparr>fileName = ''t.cpp'', name = ''next'',
        func = [Check (Returns True) Continue ''y'' 7],
        index = 2, aborted = False, duration = Indeterminate\<rparr>,
      PassedCheck 7 ''y'',
      TestFooter \<lparr>fileName = ''t.cpp'', name = ''next'',
        func = [Check (Returns True) Continue ''y'' 7],
        index = 2, aborted = False, duration = Elapsed\<rparr> \<lparr>passes = 1, fails = 0\<rparr>,
      TestSuiteEnd ''S'' \<lparr>passes = 1, fails = 1\<rparr>]"
  by (simp add: run_eval)

text \<open>
  Claim C3, amended. In mode \<^verbatim>\<open>Throw\<close> an assertion that fails or meets an unexpected
  exception throws an \<^verbatim>\<open>AssertionFailureException\<close>, whatever its \<^verbatim>\<open>onFail\<close>; the
  exception ends the body of the test, and \<^verbatim>\<open>runSome\<close> contains it: the iteration calls
  \<^verbatim>\<open>formatAbortedTest\<close> with line \<open>0\<close> and the message \<^verbatim>\<open>Uncaught exception: \<close> followed by
  the message of the exception, hands the footer the test with \<^verbatim>\<open>aborted\<close> set, and the
  loop goes on with the next requested index. No exception leaves \<^verbatim>\<open>runSome\<close> or
  \<^verbatim>\<open>run\<close>.
\<close>

theorem throw_mode_signal_is_contained:
  assumes "0 \<le> idx" and "idx < int (length (tests s))"
      and "func (tests s ! nat idx) = pre @ st # rest"
      and "fst (run_body pre (emit (TestHeader (tests s ! nat idx)) (startTest s))) = None"
      and "mode s = Mode_Throw" and "failing st \<or> erroring st"
  shows "\<exists>msg s1 s'.
           s1 = snd (run_body pre (emit (TestHeader (tests s ! nat idx)) (startTest s))) \<and>
           exec_stmt st s1 = (Some (AssertionFailureException msg), s') \<and>
           run_body (pre @ st # rest) (emit (TestHeader (tests s ! nat idx)) (startTest s)) =
             (Some (AssertionFailureException msg), s') \<and>
           runSome_iteration idx s =
             (None,
              emit (TestFooter ((tests s ! nat idx)\<lparr>aborted := True\<rparr>) (currentTestStats s'))
                (emit (AbortedTest 0 (''Uncaught exception: '' @ msg)) s')) \<and>
           runSome_loop (idx # others) s = runSome_loop others (snd (runSome_iteration idx s)) \<and>
           fst (runSome m testIdx s0) = None \<and>
           fst (run m s0) = None"
proof -
  let ?t = "tests s ! nat idx"
  let ?s2 = "emit (TestHeader ?t) (startTest s)"
  let ?s1 = "snd (run_body pre ?s2)"
  have md: "mode ?s1 = Mode_Throw"
    using run_body_frame [of pre ?s2] assms(5) by simp
  obtain msg where sig: "fst (exec_stmt st ?s1) = Some (AssertionFailureException msg)"
    using throw_mode_signal [OF md assms(6)] by blast
  obtain s' where ex: "exec_stmt st ?s1 = (Some (AssertionFailureException msg), s')"
    using sig by (cases "exec_stmt st ?s1") simp
  have body: "run_body (pre @ st # rest) ?s2 = (Some (AssertionFailureException msg), s')"
    using run_body_prefix_then [OF assms(4), of st rest] ex by simp
  have "try_test ?t ?s2 =
          (None, ?t\<lparr>aborted := True\<rparr>,
           emit (AbortedTest 0 (''Uncaught exception: '' @ msg)) s')"
    using try_test_uncaught [of ?t ?s2 "AssertionFailureException msg" s'] body assms(3)
    by simp
  from runSome_iteration_unfold [OF assms(1) assms(2) this]
  have it: "runSome_iteration idx s =
          (None,
           emit (TestFooter (?t\<lparr>aborted := True\<rparr>) (currentTestStats s'))
             (emit (AbortedTest 0 (''Uncaught exception: '' @ msg)) s'))"
    by simp
  show ?thesis
    using ex body it runSome_loop_step [of idx others s] runSome_contains [of m testIdx s0]
          run_contains [of m s0]
    by blast
qed

theorem throw_mode_signal_is_contained_witness:
  "\<exists>msg s'.
     runSome_iteration 0
       (runSome_begin Mode_Throw
          (addTest ''fails'' [Throws (Returns ()) Continue ''x'' 3, Check (Returns True) Continue ''z'' 4]
             ''t.cpp'' (newTestSuite ''S''))) =
       (None,
        emit (TestFooter
                \<lparr>fileName = ''t.cpp'', name = ''fails'',
                 func = [Throws (Returns ()) Continue ''x'' 3, Check (Returns True) Continue ''z'' 4],
                 index = 1, aborted = True, duration = Indeterminate\<rparr>
                (currentTestStats s'))
          (emit (AbortedTest 0 (''Uncaught exception: '' @ msg)) s'))"
proof -
  let ?st = "Throws (Returns ()) Continue ''x'' 3"
  let ?rest = "[Check (Returns True) Continue ''z'' 4]"
  let ?S = "runSome_begin Mode_Throw (addTest ''fails'' (?st # ?rest) ''t.cpp'' (newTestSuite ''S''))"
  have h1: "(0::int) \<le> 0" by simp
  have h2: "0 < int (length (tests ?S))" by simp
  have h3: "func (tests ?S ! nat 0) = [] @ ?st # ?rest" by simp
  have h4: "fst (run_body [] (emit (TestHeader (tests ?S ! nat 0)) (startTest ?S))) = None"
    by simp
  have h5: "mode ?S = Mode_Throw" by simp
  have h6: "failing ?st \<or> erroring ?st" by simp
  from throw_mode_signal_is_contained [OF h1 h2 h3 h4 h5 h6]
  obtain msg s' where
    it: "runSome_iteration 0 ?S =
           (None,
            emit (TestFooter ((tests ?S ! nat 0)\<lparr>aborted := True\<rparr>) (currentTestStats s'))
              (emit (AbortedTest 0 (''Uncaught exception: '' @ msg)) s'))"
    by blast
  then have "runSome_iteration 0 ?S =
       (None,
        emit (TestFooter
                \<lparr>fileName = ''t.cpp'', name = ''fails'', func = ?st # ?rest,
                 index = 1, aborted = True, duration = Indeterminate\<rparr>
                (currentTestStats s'))
          (emit (AbortedTest 0 (''Uncaught exception: '' @ msg)) s'))"
    by simp
  then show ?thesis by blast
qed

subsection \<open>An exception thrown outside the assertions\<close>

text \<open>
  Claim C6. Let the body of the requested test throw, outside any assertion, a fault
  \<open>f\<close>: any object other than the test-abort signal of the library, which the first
  handler of \<^verbatim>\<open>runSome\<close> takes with the line it carries. Then the body ends at the
  \<^verbatim>\<open>throw\<close>; the iteration of \<^verbatim>\<open>runSome\<close> calls \<^verbatim>\<open>formatAbortedTest\<close> with line \<open>0\<close>, the
  marker of an unknown line, and a message that starts with \<^verbatim>\<open>Uncaught exception\<close>, and
  hands the footer the test of the run loop with \<^verbatim>\<open>aborted\<close> set; no exception leaves the
  iteration, the loop goes on with the indices after it, and no exception leaves
  \<^verbatim>\<open>runSome\<close> or \<^verbatim>\<open>run\<close>.
\<close>

theorem uncaught_exception_is_contained:
  assumes "0 \<le> idx" and "idx < int (length (tests s))"
      and "func (tests s ! nat idx) = pre @ Throw f # rest"
      and "fst (run_body pre (emit (TestHeader (tests s ! nat idx)) (startTest s))) = None"
      and "\<forall>ln msg. f \<noteq> TestAbortException ln msg"
  shows "\<exists>s'.
           s' = snd (run_body pre (emit (TestHeader (tests s ! nat idx)) (startTest s))) \<and>
           run_body (pre @ Throw f # rest) (emit (TestHeader (tests s ! nat idx)) (startTest s)) =
             (Some f, s') \<and>
           runSome_iteration idx s =
             (None,
              emit (TestFooter ((tests s ! nat idx)\<lparr>aborted := True\<rparr>) (currentTestStats s'))
                (emit (AbortedTest 0
                         (case what f of
                            Some w \<Rightarrow> ''Uncaught exception: '' @ w
                          | None \<Rightarrow> ''Uncaught exception outside of assertion.'')) s')) \<and>
           runSome_loop (idx # others) s = runSome_loop others (snd (runSome_iteration idx s)) \<and>
           fst (runSome m testIdx s0) = None \<and>
           fst (run m s0) = None"
proof -
  let ?t = "tests s ! nat idx"
  let ?s2 = "emit (TestHeader ?t) (startTest s)"
  let ?s' = "snd (run_body pre ?s2)"
  have body: "run_body (pre @ Throw f # rest) ?s2 = (Some f, ?s')"
    using run_body_prefix_then [OF assms(4), of "Throw f" rest] by simp
  have "try_test ?t ?s2 =
          (None, ?t\<lparr>aborted := True\<rparr>,
           emit (AbortedTest 0
                   (case what f of
                      Some w \<Rightarrow> ''Uncaught exception: '' @ w
                    | None \<Rightarrow> ''Uncaught exception outside of assertion.'')) ?s')"
    using try_test_uncaught [of ?t ?s2 f ?s'] body assms(3) assms(5) by simp
  from runSome_iteration_unfold [OF assms(1) assms(2) this]
  have it: "runSome_iteration idx s =
             (None,
              emit (TestFooter (?t\<lparr>aborted := True\<rparr>) (currentTestStats ?s'))
                (emit (AbortedTest 0
                         (case what f of
                            Some w \<Rightarrow> ''Uncaught exception: '' @ w
                          | None \<Rightarrow> ''Uncaught exception outside of assertion.'')) ?s'))"
    by simp
  show ?thesis
    using body it runSome_loop_step [of idx others s] runSome_contains [of m testIdx s0]
          run_contains [of m s0]
    by blast
qed

theorem uncaught_exception_is_contained_witness:
  "runSome_iteration 0
     (runSome_begin Mode_Continue
        (addTest ''raw'' [Check (Returns True) Continue ''INT_MAX > 5'' 3,
                          Throw (StdException ''std::logic_error'' ''ERROR!''),
                          Throw (OtherThrow ''int'')]
           ''t.cpp'' (newTestSuite ''S''))) =
     (None,
      emit (TestFooter
              \<lparr>fileName = ''t.cpp'', name = ''raw'',
               func = [Check (Returns True) Continue ''INT_MAX > 5'' 3,
                       Throw (StdException ''std::logic_error'' ''ERROR!''),
                       Throw (OtherThrow ''int'')],
               index = 1, aborted = True, duration = Indeterminate\<rparr>
              \<lparr>passes = 1, fails = 0\<rparr>)
        (emit (AbortedTest 0 ''Uncaught exception: ERROR!'')
           (snd (run_body [Check (Returns True) Continue ''INT_MAX > 5'' 3]
              (emit (TestHeader
                 \<lparr>fileName = ''t.cpp'', name = ''raw'',
                  func = [Check (Returns True) Continue ''INT_MAX > 5'' 3,
                          Throw (StdException ''std::logic_error'' ''ERROR!''),
                          Throw (OtherThrow ''int'')],
                  index = 1, aborted = False, duration = Indeterminate\<rparr>)
                 (startTest (runSome_begin Mode_Continue
                    (addTest ''raw'' [Check (Returns True) Continue ''INT_MAX > 5'' 3,
                          Throw (StdException ''std::logic_error'' ''ERROR!''),
                          Throw (OtherThrow ''int'')]
                       ''t.cpp'' (newTestSuite ''S'')))))))))"
proof -
  let ?pre = "[Check (Returns True) Continue ''INT_MAX > 5'' 3]"
  let ?f = "StdException ''std::logic_error'' ''ERROR!''"
  let ?rest = "[Throw (OtherThrow ''int'')]"
  let ?S = "runSome_begin Mode_Continue
              (addTest ''raw'' (?pre @ Throw ?f # ?rest) ''t.cpp'' (newTestSuite ''S''))"
  have h1: "(0::int) \<le> 0" by simp
  have h2: "0 < int (length (tests ?S))" by simp
  have h3: "func (tests ?S ! nat 0) = ?pre @ Throw ?f # ?rest" by simp
  have h4: "fst (run_body ?pre (emit (TestHeader (tests ?S ! nat 0)) (startTest ?S))) = None"
    by (simp add: assertion_defs)
  have h5: "\<forall>ln msg. ?f \<noteq> TestAbortException ln msg" by simp
  have st: "currentTestStats (snd (run_body ?pre (emit (TestHeader (tests ?S ! nat 0)) (startTest ?S))))
              = \<lparr>passes = 1, fails = 0\<rparr>"
    by (simp add: run_eval)
  from uncaught_exception_is_contained [OF h1 h2 h3 h4 h5]
  have "runSome_iteration 0 ?S =
          (None,
           emit (TestFooter ((tests ?S ! nat 0)\<lparr>aborted := True\<rparr>)
                   (currentTestStats
                      (snd (run_body ?pre (emit (TestHeader (tests ?S ! nat 0)) (startTest ?S))))))
             (emit (AbortedTest 0
                      (case what ?f of
                         Some w \<Rightarrow> ''Uncaught exception: '' @ w
                       | None \<Rightarrow> ''Uncaught exception outside of assertion.''))
                (snd (run_body ?pre (emit (TestHeader (tests ?S ! nat 0)) (startTest ?S))))))"
    by blast
  then show ?thesis unfolding st by simp
qed

subsection \<open>throws\<close>

lemma throws_raises:
  "throws s (Raises f) onFail exprstr ln =
     (Inr Passed, emit (PassedThrow ln exprstr) (snd (passed s)))"
  by (simp add: throws_def)

lemma throws_returns:
  "throws s (Returns u) onFail exprstr ln =
     (if mode s = Mode_Throw
      then Inl (AssertionFailureException (''No exception in: '' @ exprstr))
      else if onFail = Abort
      then Inl (TestAbortException ln ''No exception in throw assertion.'')
      else Inr Failed,
      emit (FailedThrow ln exprstr) (snd (failed s)))"
  by (simp add: throws_def Let_def)

lemma emit_differs:
  assumes "outputLog s1 = outputLog s2" and "e1 \<noteq> e2"
  shows "emit e1 s1 \<noteq> emit e2 s2"
proof
  assume "emit e1 s1 = emit e2 s2"
  then have "outputLog (emit e1 s1) = outputLog (emit e2 s2)" by simp
  then show False using assms by simp
qed

text \<open>
  Claim C5. \<^verbatim>\<open>throws\<close> passes exactly when its callable throws, whatever the object: it
  calls \<^verbatim>\<open>passed()\<close> and \<^verbatim>\<open>formatPassedThrow\<close> and returns \<^verbatim>\<open>Passed\<close>. It takes its failure
  path exactly when the callable returns: it calls \<^verbatim>\<open>failed()\<close> and \<^verbatim>\<open>formatFailedThrow\<close>, and
  the path ends as every failure does, by \<^verbatim>\<open>AssertionFailureException\<close> in mode
  \<^verbatim>\<open>Throw\<close>, by \<^verbatim>\<open>TestAbortException\<close> under \<^verbatim>\<open>Abort\<close>, and otherwise by returning
  \<^verbatim>\<open>Failed\<close>; the value \<^verbatim>\<open>Failed\<close> is returned only when nothing was thrown. In the pass
  case no exception leaves the statement, and a test whose body is this one statement
  ends normally in \<^verbatim>\<open>runSome\<close>: its duration is written, \<^verbatim>\<open>aborted\<close> is not, and
  \<^verbatim>\<open>formatAbortedTest\<close> is not called.
\<close>

theorem throws_fails_iff_nothing_thrown:
  "(\<exists>f. fn = Raises f) =
     (throws s fn onFail exprstr ln =
        (Inr Passed, emit (PassedThrow ln exprstr) (snd (passed s)))) \<and>
   (fn = Returns ()) =
     (throws s fn onFail exprstr ln =
        (if mode s = Mode_Throw
         then Inl (AssertionFailureException (''No exception in: '' @ exprstr))
         else if onFail = Abort
         then Inl (TestAbortException ln ''No exception in throw assertion.'')
         else Inr Failed,
         emit (FailedThrow ln exprstr) (snd (failed s)))) \<and>
   (fst (throws s fn onFail exprstr ln) = Inr Failed) =
     (fn = Returns () \<and> mode s = Mode_Continue \<and> onFail = Continue) \<and>
   exec_stmt (Throws (Raises f) onFail exprstr ln) s =
     (None, emit (PassedThrow ln exprstr) (snd (passed s))) \<and>
   try_test (test\<lparr>func := [Throws (Raises f) onFail exprstr ln]\<rparr>) s =
     (None, test\<lparr>func := [Throws (Raises f) onFail exprstr ln], duration := Elapsed\<rparr>,
      emit (PassedThrow ln exprstr) (snd (passed s)))"
proof -
  have d: "emit (PassedThrow ln exprstr) (snd (passed s)) \<noteq>
           emit (FailedThrow ln exprstr) (snd (failed s))"
    by (rule emit_differs) simp_all
  have a: "(\<exists>f. fn = Raises f) =
     (throws s fn onFail exprstr ln =
        (Inr Passed, emit (PassedThrow ln exprstr) (snd (passed s))))"
    by (cases fn) (simp_all add: throws_raises throws_returns)
  have b: "(fn = Returns ()) =
     (throws s fn onFail exprstr ln =
        (if mode s = Mode_Throw
         then Inl (AssertionFailureException (''No exception in: '' @ exprstr))
         else if onFail = Abort
         then Inl (TestAbortException ln ''No exception in throw assertion.'')
         else Inr Failed,
         emit (FailedThrow ln exprstr) (snd (failed s))))"
    using d by (cases fn) (simp_all add: throws_raises throws_returns)
  have c: "(fst (throws s fn onFail exprstr ln) = Inr Failed) =
     (fn = Returns () \<and> mode s = Mode_Continue \<and> onFail = Continue)"
  proof (cases fn)
    case (Returns u)
    show ?thesis
      unfolding Returns throws_returns
      by (cases "mode s"; cases onFail) simp_all
  next
    case (Raises g)
    show ?thesis unfolding Raises throws_raises by simp
  qed
  have e: "exec_stmt (Throws (Raises f) onFail exprstr ln) s =
     (None, emit (PassedThrow ln exprstr) (snd (passed s)))"
    by (simp add: throws_raises unwinding_def)
  have g: "try_test (test\<lparr>func := [Throws (Raises f) onFail exprstr ln]\<rparr>) s =
     (None, test\<lparr>func := [Throws (Raises f) onFail exprstr ln], duration := Elapsed\<rparr>,
      emit (PassedThrow ln exprstr) (snd (passed s)))"
    by (simp add: try_test_def throws_raises unwinding_def)
  show ?thesis using a b c e g by blast
qed

subsection \<open>equal\<close>

lemma equal_match:
  "equal s v (Returns v) onFail exprstr ln =
     (Inr Passed, emit (PassedEquals ln exprstr (descriptionIfAvailable v)) (snd (passed s)))"
  by (simp add: equal_def equal_try_def Let_def)

lemma equal_mismatch_continue:
  assumes "res \<noteq> v" and "mode s = Mode_Continue"
  shows "equal s v (Returns res) Continue exprstr ln =
     (Inr Failed,
      emit (FailedEquals ln exprstr (descriptionIfAvailable v) (descriptionIfAvailable res))
        (snd (failed s)))"
  using assms by (simp add: equal_def equal_try_def Let_def)

lemma equal_mismatch_abort:
  assumes "res \<noteq> v" and "mode s = Mode_Continue"
  shows "equal s v (Returns res) Abort exprstr ln =
     (Inl (TestAbortException ln ''Caught in assertion''),
      emit (UnexpectedException ln exprstr ''Equal failed.'')
        (snd (failed
           (emit (FailedEquals ln exprstr (descriptionIfAvailable v) (descriptionIfAvailable res))
              (snd (failed s))))))"
  using assms by (simp add: equal_def equal_try_def reportException_def Let_def)

lemma equal_mismatch_throw:
  assumes "res \<noteq> v" and "mode s = Mode_Throw"
  shows "equal s v (Returns res) onFail exprstr ln =
     (Inl (AssertionFailureException (''Unexpected exception in: '' @ exprstr)),
      emit (UnexpectedException ln exprstr (''Unexpected value in: '' @ exprstr))
        (snd (failed
           (emit (FailedEquals ln exprstr (descriptionIfAvailable v) (descriptionIfAvailable res))
              (snd (failed s))))))"
  using assms by (simp add: equal_def equal_try_def reportException_def Let_def)

lemma show_nat_digit: "n < 10 \<Longrightarrow> show_nat n = [''0123456789'' ! n]"
  by (simp add: show_nat.simps)

text \<open>
  Claim C8 says that a mismatch in \<^verbatim>\<open>equal\<close> increments the fail counters and reports the
  failed comparison with the texts of both values. The comparison, the texts and the
  placeholder \<^verbatim>\<open>N/A\<close> are as the claim says (\<open>equal_match\<close>, \<open>equal_mismatch_continue\<close>
  and the last equation of \<open>descriptionIfAvailable\<close>). The count is not: the two
  \<^verbatim>\<open>throw\<close> statements of the failure branch stand inside the \<^verbatim>\<open>try\<close> block of \<^verbatim>\<open>equal\<close>,
  whose handler for \<^verbatim>\<open>std::exception\<close> catches them and calls \<^verbatim>\<open>reportException\<close>
  (\<open>equal_mismatch_abort\<close>, \<open>equal_mismatch_throw\<close>). The first run below is
  \<^verbatim>\<open>equal(5, producer-returning-6)\<close> under \<^verbatim>\<open>Abort\<close>: one mismatch, two failures counted and
  an unexpected-exception call with the message of the abort. The second is the same
  assertion under \<^verbatim>\<open>Continue\<close>, the third a failing \<^verbatim>\<open>check\<close> under \<^verbatim>\<open>Abort\<close>, whose
  \<^verbatim>\<open>throw\<close> statements stand outside its \<^verbatim>\<open>try\<close> block: each counts one failure.
\<close>

theorem equal_abort_counts_failure_twice:
  "outputLog (snd (run Mode_Continue
      (addTest ''B'' [Equal (IntV 5) (Returns (IntV 6)) Abort ''x'' 3] ''t.cpp''
         (newTestSuite ''S'')))) =
     [TestSuiteStart ''S'' \<lparr>passes = 0, fails = 0\<rparr>,
      TestHeader \<lparr>fileName = ''t.cpp'', name = ''B'',
        func = [Equal (IntV 5) (Returns (IntV 6)) Abort ''x'' 3],
        index = 1, aborted = False, duration = Indeterminate\<rparr>,
      FailedEquals 3 ''x'' ''5'' ''6'',
      UnexpectedException 3 ''x'' ''Equal failed.'',
      AbortedTest 3 ''Caught in assertion'',
      TestFooter \<lparr>fileName = ''t.cpp'', name = ''B'',
        func = [Equal (IntV 5) (Returns (IntV 6)) Abort ''x'' 3],
        index = 1, aborted = True, duration = Indeterminate\<rparr> \<lparr>passes = 0, fails = 2\<rparr>,
      TestSuiteEnd ''S'' \<lparr>passes = 0, fails = 2\<rparr>] \<and>
   outputLog (snd (run Mode_Continue
      (addTest ''B'' [Equal (IntV 5) (Returns (IntV 6)) Continue ''x'' 3] ''t.cpp''
         (newTestSuite ''S'')))) =
     [TestSuiteStart ''S'' \<lparr>passes = 0, fails = 0\<rparr>,
      TestHeader \<lparr>fileName = ''t.cpp'', name = ''B'',
        func = [Equal (IntV 5) (Returns (IntV 6)) Continue ''x'' 3],
        index = 1, aborted = False, duration = Indeterminate\<rparr>,
      FailedEquals 3 ''x'' ''5'' ''6'',
      TestFooter \<lparr>fileName = ''t.cpp'', name = ''B'',
        func = [Equal (IntV 5) (Returns (IntV 6)) Continue ''x'' 3],
        index = 1, aborted = False, duration = Elapsed\<rparr> \<lparr>passes = 0, fails = 1\<rparr>,
      TestSuiteEnd ''S'' \<lparr>passes = 0, fails = 1\<rparr>] \<and>
   outputLog (snd (run Mode_Continue
      (addTest ''B'' [Check (Returns False) Abort ''x'' 3] ''t.cpp''
         (newTestSuite ''S'')))) =
     [TestSuiteStart ''S'' \<lparr>passes = 0, fails = 0\<rparr>,
      TestHeader \<lparr>fileName = ''t.cpp'', name = ''B'',
        func = [Check (Returns False) Abort ''x'' 3],
        index = 1, aborted = False, duration = Indeterminate\<rparr>,
      FailedCheck 3 ''x'',
      AbortedTest 3 ''Check failed.'',
      TestFooter \<lparr>fileName = ''t.cpp'', name = ''B'',
        func = [Check (Returns False) Abort ''x'' 3],
        index = 1, aborted = True, duration = Indeterminate\<rparr> \<lparr>passes = 0, fails = 1\<rparr>,
      TestSuiteEnd ''S'' \<lparr>passes = 0, fails = 1\<rparr>]"
  by (simp add: run_eval show_int_def show_nat_digit)

subsection \<open>The totals during a run\<close>

lemma TestStats_eq_iff:
  "(r = \<lparr>passes = a, fails = b\<rparr>) = (passes r = a \<and> fails r = b)"
  by (cases r) auto

lemma sum_list_word_update:
  "k < length xs \<Longrightarrow> sum_list (xs[k := x]) = sum_list xs + x - xs ! (k::nat)"
  for xs :: "32 word list"
proof (induction xs arbitrary: k)
  case Nil
  then show ?case by simp
next
  case (Cons a xs)
  then show ?case by (cases k) simp_all
qed

lemma sumStats_update:
  assumes "k < length xs"
  shows "sumStats (xs[k := y]) =
           \<lparr>passes = passes (sumStats xs) + passes y - passes (xs ! k),
            fails = fails (sumStats xs) + fails y - fails (xs ! k)\<rparr>"
  using assms by (simp add: sumStats_def map_update sum_list_word_update)

lemma statsSince_update:
  assumes "n \<le> k" and "k < length (stats s)" and "stats s' = (stats s)[k := y]"
  shows "statsSince n s' =
           \<lparr>passes = passes (statsSince n s) + passes y - passes (stats s ! k),
            fails = fails (statsSince n s) + fails y - fails (stats s ! k)\<rparr>"
proof -
  have "drop n (stats s') = (drop n (stats s))[k - n := y]"
    using assms by (simp add: drop_update_swap)
  moreover have "k - n < length (drop n (stats s))" using assms by simp
  moreover have "drop n (stats s) ! (k - n) = stats s ! k" using assms by simp
  ultimately show ?thesis
    using sumStats_update [of "k - n" "drop n (stats s)" y] by (simp add: statsSince_def)
qed

lemma within_test_range:
  assumes "within_test n s"
  shows "counter_in_range s" and "n \<le> nat (counter s)" and "nat (counter s) < length (stats s)"
  using assms unfolding within_test_def counter_synced_def counter_in_range_def by auto

lemma within_test_emit [simp]: "within_test n (emit e s) = within_test n s"
  by (simp add: within_test_def counter_synced_def totals_agree_def statsSince_def)

lemma within_test_failed:
  assumes "within_test n s"
  shows "within_test n (snd (failed s))"
proof -
  let ?k = "nat (counter s)"
  let ?y = "(stats s ! ?k)\<lparr>fails := fails (stats s ! ?k) + 1\<rparr>"
  have st: "stats (snd (failed s)) = (stats s)[?k := ?y]"
    using within_test_range(1) [OF assms] by (simp add: failed_def)
  have tot: "totalStats s = statsSince n s"
    using assms by (simp add: within_test_def totals_agree_def)
  have "statsSince n (snd (failed s)) =
          \<lparr>passes = passes (statsSince n s), fails = fails (statsSince n s) + 1\<rparr>"
    using statsSince_update [OF within_test_range(2) [OF assms] within_test_range(3) [OF assms] st]
    by simp
  moreover have "totalStats (snd (failed s)) =
          \<lparr>passes = passes (totalStats s), fails = fails (totalStats s) + 1\<rparr>"
    by (simp add: TestStats_eq_iff)
  ultimately have "totals_agree n (snd (failed s))"
    using tot by (simp add: totals_agree_def)
  then show ?thesis
    using assms by (simp add: within_test_def counter_synced_def)
qed

lemma within_test_passed:
  assumes "within_test n s"
  shows "within_test n (snd (passed s))"
proof -
  let ?k = "nat (counter s)"
  let ?y = "(stats s ! ?k)\<lparr>passes := passes (stats s ! ?k) + 1\<rparr>"
  have st: "stats (snd (passed s)) = (stats s)[?k := ?y]"
    using within_test_range(1) [OF assms] by (simp add: passed_def)
  have tot: "totalStats s = statsSince n s"
    using assms by (simp add: within_test_def totals_agree_def)
  have "statsSince n (snd (passed s)) =
          \<lparr>passes = passes (statsSince n s) + 1, fails = fails (statsSince n s)\<rparr>"
    using statsSince_update [OF within_test_range(2) [OF assms] within_test_range(3) [OF assms] st]
    by simp
  moreover have "totalStats (snd (passed s)) =
          \<lparr>passes = passes (totalStats s) + 1, fails = fails (totalStats s)\<rparr>"
    by (simp add: TestStats_eq_iff)
  ultimately have "totals_agree n (snd (passed s))"
    using tot by (simp add: totals_agree_def)
  then show ?thesis
    using assms by (simp add: within_test_def counter_synced_def)
qed

lemma snd_unwinding [simp]: "snd (unwinding r) = snd r"
  by (cases r) (simp add: unwinding_def split: sum.splits)

lemma snd_reportException:
  "snd (reportException s ln exprstr msg onFail) =
     emit (UnexpectedException ln exprstr msg) (snd (failed s))"
  by (simp add: reportException_def Let_def)

lemma within_test_exec:
  assumes "within_test n s"
  shows "within_test n (snd (exec_stmt st s))"
proof (cases st)
  case (Check fn onFail exprstr ln)
  show ?thesis
    using assms unfolding Check
    by (simp add: check_def Let_def snd_reportException within_test_failed within_test_passed
          split: call.split option.split)
next
  case (Equal v fn onFail exprstr ln)
  show ?thesis
    using assms unfolding Equal
    by (simp add: equal_def equal_try_def Let_def snd_reportException within_test_failed
          within_test_passed split: call.split option.split)
next
  case (ThrowsType isThrownType fn onFail exprstr ln)
  show ?thesis
    using assms unfolding ThrowsType
    by (simp add: throwsType_def Let_def snd_reportException within_test_failed
          within_test_passed split: call.split option.split)
next
  case (Throws fn onFail exprstr ln)
  show ?thesis
    using assms unfolding Throws
    by (simp add: throws_def Let_def within_test_failed within_test_passed split: call.split)
next
  case (GenerateFailure reason onFail ln)
  show ?thesis
    using assms unfolding GenerateFailure
    by (simp add: generateFailure_def Let_def within_test_failed)
next
  case (Message ln msg)
  show ?thesis using assms unfolding Message by simp
next
  case (PrintExpr ln exprstr v)
  show ?thesis using assms unfolding PrintExpr by simp
next
  case (Throw f)
  show ?thesis using assms unfolding Throw by simp
qed

lemma within_test_body:
  "within_test n s \<Longrightarrow> within_test n (snd (run_body body s))"
proof (induction body arbitrary: s)
  case Nil
  then show ?case by simp
next
  case (Cons st rest)
  obtain r s' where ex: "exec_stmt st s = (r, s')" by (cases "exec_stmt st s")
  have w: "within_test n s'" using within_test_exec [OF Cons.prems, of st] ex by simp
  show ?case
  proof (cases r)
    case None
    then show ?thesis using ex Cons.IH [OF w] by simp
  next
    case (Some f)
    then show ?thesis using ex w by simp
  qed
qed


lemma within_between: "within_test n s \<Longrightarrow> between_tests n s"
  by (simp add: within_test_def between_tests_def)

lemma between_tests_emit [simp]: "between_tests n (emit e s) = between_tests n s"
  by (simp add: between_tests_def counter_synced_def totals_agree_def statsSince_def)

lemma between_startTest:
  assumes "between_tests n s"
  shows "within_test n (startTest s)"
proof -
  have "statsSince n (startTest s) = statsSince n s"
    using assms
    by (simp add: between_tests_def statsSince_def sumStats_def newTestStats_def)
  then show ?thesis
    using assms
    by (simp add: between_tests_def within_test_def counter_synced_def totals_agree_def)
qed

lemma within_try_test:
  assumes "within_test n s"
  shows "within_test n (snd (snd (try_test test s)))"
  using within_test_body [OF assms, of "func test"]
  by (auto simp add: try_test_def split: prod.splits option.splits fault.splits)

lemma between_iteration:
  assumes "between_tests n s"
  shows "between_tests n (snd (runSome_iteration idx s))"
proof (cases "idx \<ge> 0 \<and> idx < int (length (tests s))")
  case False
  then show ?thesis using assms by (simp add: runSome_iteration_def)
next
  case True
  let ?s2 = "emit (TestHeader (tests s ! nat idx)) (startTest s)"
  obtain r t' s3 where tt: "try_test (tests s ! nat idx) ?s2 = (r, t', s3)"
    by (cases "try_test (tests s ! nat idx) ?s2") auto
  have "within_test n ?s2" using between_startTest [OF assms] by simp
  from within_try_test [OF this, of "tests s ! nat idx"]
  have "within_test n s3" using tt by simp
  then have "between_tests n s3" by (rule within_between)
  then show ?thesis
    using True tt by (simp add: runSome_iteration_def Let_def split: option.splits)
qed

lemma between_loop:
  "between_tests n s \<Longrightarrow> between_tests n (snd (runSome_loop testIdx s))"
  by (induction testIdx arbitrary: s)
     (simp_all add: runSome_loop_step between_iteration del: runSome_loop.simps(2))

lemma between_begin:
  assumes "counter_synced s"
  shows "between_tests (length (stats s)) (runSome_begin m s)"
  using assms
  by (simp add: between_tests_def counter_synced_def totals_agree_def statsSince_def
        sumStats_def newTestStats_def)

lemma between_runSome:
  assumes "counter_synced s"
  shows "between_tests (length (stats s)) (snd (runSome m testIdx s))"
  using between_loop [OF between_begin [OF assms, of m], of testIdx]
  by (simp add: runSome_unfold Let_def)

lemma runSome_counter_synced:
  "counter_synced s \<Longrightarrow> counter_synced (snd (runSome m testIdx s))"
  using between_runSome [of s m testIdx] by (simp add: between_tests_def)

lemma newTestSuite_counter_synced: "counter_synced (newTestSuite nm)"
  by (simp add: counter_synced_def newTestSuite_def)

lemma addTest_counter_synced [simp]: "counter_synced (addTest nm fn fl s) = counter_synced s"
  by (simp add: counter_synced_def addTest_def)

subsection \<open>The three exits of an assertion\<close>

text \<open>
  Every assertion statement takes exactly one of the three exits, and the passing one
  calls \<^verbatim>\<open>passed()\<close> once, makes one formatter call and throws nothing.
\<close>

lemma assertion_exits:
  assumes "onFail_of st = Some p"
  shows "(passing st \<and> \<not> failing st \<and> \<not> erroring st) \<or>
         (\<not> passing st \<and> failing st \<and> \<not> erroring st) \<or>
         (\<not> passing st \<and> \<not> failing st \<and> erroring st)"
  using assms by (cases st) (auto split: call.splits)

lemma passing_exec:
  assumes "passing st"
  shows "\<exists>ev. exec_stmt st s = (None, emit ev (snd (passed s)))"
  using assms
  by (cases st) (auto simp add: assertion_defs Let_def split: call.splits)

subsection \<open>The totals as numbers\<close>

lemma signed_take_bit_sint32: "signed_take_bit 31 (sint a) = sint a" for a :: "32 word"
proof -
  have "- (2 ^ 31) \<le> sint a" and "sint a < 2 ^ 31"
    using sint_ge [of a] sint_lt [of a] by simp_all
  then show ?thesis by (rule signed_take_bit_int_eq_self)
qed

lemma sint_sum_list32:
  "sint (sum_list ws) = signed_take_bit 31 (sum_list (map sint ws))" for ws :: "32 word list"
proof (induction ws)
  case Nil
  show ?case by simp
next
  case (Cons a ws)
  have "sint (a + sum_list ws) = signed_take_bit 31 (sint a + sint (sum_list ws))"
    by (simp add: sint_word_ariths)
  also have "\<dots> = signed_take_bit 31
                   (signed_take_bit 31 (sint a) + signed_take_bit 31 (sum_list (map sint ws)))"
    using Cons.IH by (simp add: signed_take_bit_sint32)
  also have "\<dots> = signed_take_bit 31 (sint a + sum_list (map sint ws))"
    by (rule signed_take_bit_add)
  finally show ?case by simp
qed

lemma totals_agree_wraps:
  assumes "totals_agree n s"
  shows "sint (passes (totalStats s)) = signed_take_bit 31 (sumPasses n s)"
    and "sint (fails (totalStats s)) = signed_take_bit 31 (sumFails n s)"
  using assms sint_sum_list32 [of "map passes (drop n (stats s))"]
        sint_sum_list32 [of "map fails (drop n (stats s))"]
  by (simp_all add: totals_agree_def statsSince_def sumStats_def sumPasses_def sumFails_def
        comp_def)

lemma totals_agree_numbers:
  assumes "totals_agree n s" and "sums_fit n s"
  shows "totals_agree_as_numbers n s"
proof -
  have "signed_take_bit 31 (sumPasses n s) = sumPasses n s"
    using assms(2) by (intro signed_take_bit_int_eq_self) (simp_all add: sums_fit_def)
  moreover have "signed_take_bit 31 (sumFails n s) = sumFails n s"
    using assms(2) by (intro signed_take_bit_int_eq_self) (simp_all add: sums_fit_def)
  ultimately show ?thesis
    using totals_agree_wraps [OF assms(1)] by (simp add: totals_agree_as_numbers_def)
qed

subsection \<open>What one assertion counts\<close>

lemma counter_in_range_emit [simp]: "counter_in_range (emit e s) = counter_in_range s"
  by (simp add: counter_in_range_def)

lemma failing_state:
  assumes "failing st" and "\<not> mismatch_throws (mode s) st"
  shows "\<exists>ev. snd (exec_stmt st s) = emit ev (snd (failed s))"
  using assms
  by (cases st) (auto simp add: assertion_defs Let_def split: call.splits)

lemma erroring_state:
  assumes "erroring st"
  shows "\<exists>ev. snd (exec_stmt st s) = emit ev (snd (failed s))"
  using assms
  by (cases st)
     (auto simp add: check_def equal_def equal_try_def throwsType_def snd_reportException
        split: call.splits option.splits)

lemma passing_counts:
  assumes "passing st" and "counter_in_range s"
  shows "passes (totalStats (snd (exec_stmt st s))) = passes (totalStats s) + 1 \<and>
         passes (currentTestStats (snd (exec_stmt st s))) = passes (currentTestStats s) + 1 \<and>
         fails (totalStats (snd (exec_stmt st s))) = fails (totalStats s) \<and>
         fails (currentTestStats (snd (exec_stmt st s))) = fails (currentTestStats s)"
proof -
  obtain ev where "exec_stmt st s = (None, emit ev (snd (passed s)))"
    using passing_exec [OF assms(1)] by blast
  then show ?thesis using passed_current [OF assms(2)] by simp
qed

lemma failing_counts:
  assumes "failing st \<and> \<not> mismatch_throws (mode s) st \<or> erroring st" and "counter_in_range s"
  shows "fails (totalStats (snd (exec_stmt st s))) = fails (totalStats s) + 1 \<and>
         fails (currentTestStats (snd (exec_stmt st s))) = fails (currentTestStats s) + 1 \<and>
         passes (totalStats (snd (exec_stmt st s))) = passes (totalStats s) \<and>
         passes (currentTestStats (snd (exec_stmt st s))) = passes (currentTestStats s)"
proof -
  obtain ev where "snd (exec_stmt st s) = emit ev (snd (failed s))"
    using assms(1) failing_state [of st s] erroring_state [of st s] by blast
  then show ?thesis using failed_current [OF assms(2)] by simp
qed


subsection \<open>Long runs\<close>

lemma run_body_replicate_passing:
  assumes "counter_in_range s"
  shows "fst (run_body (replicate k (Check (Returns True) p e l)) s) = None \<and>
         totalStats (snd (run_body (replicate k (Check (Returns True) p e l)) s)) =
           (totalStats s)\<lparr>passes := passes (totalStats s) + of_nat k\<rparr> \<and>
         stats (snd (run_body (replicate k (Check (Returns True) p e l)) s)) =
           (stats s)[nat (counter s) :=
              (stats s ! nat (counter s))
                \<lparr>passes := passes (stats s ! nat (counter s)) + of_nat k\<rparr>]"
  using assms
proof (induction k arbitrary: s)
  case 0
  then show ?case by simp
next
  case (Suc k)
  let ?c = "nat (counter s)"
  let ?s1 = "emit (PassedCheck l e) (snd (passed s))"
  have ex: "exec_stmt (Check (Returns True) p e l) s = (None, ?s1)"
    by (simp add: check_def unwinding_def Let_def)
  have c1: "counter_in_range ?s1" "counter ?s1 = counter s"
    using Suc.prems by (simp_all add: counter_in_range_def)
  have lt: "?c < length (stats s)" by (rule counter_in_range_nat [OF Suc.prems])
  have st1: "stats ?s1 = (stats s)[?c := (stats s ! ?c)\<lparr>passes := passes (stats s ! ?c) + 1\<rparr>]"
    using Suc.prems by (simp add: passed_def)
  have tot1: "totalStats ?s1 = (totalStats s)\<lparr>passes := passes (totalStats s) + 1\<rparr>"
    by (simp add: passed_def)
  from Suc.IH [OF c1(1)]
  have ih: "fst (run_body (replicate k (Check (Returns True) p e l)) ?s1) = None"
    "totalStats (snd (run_body (replicate k (Check (Returns True) p e l)) ?s1)) =
       (totalStats ?s1)\<lparr>passes := passes (totalStats ?s1) + of_nat k\<rparr>"
    "stats (snd (run_body (replicate k (Check (Returns True) p e l)) ?s1)) =
       (stats ?s1)[nat (counter ?s1) :=
          (stats ?s1 ! nat (counter ?s1))
            \<lparr>passes := passes (stats ?s1 ! nat (counter ?s1)) + of_nat k\<rparr>]"
    by simp_all
  have rb: "run_body (replicate (Suc k) (Check (Returns True) p e l)) s =
            run_body (replicate k (Check (Returns True) p e l)) ?s1"
    using ex by simp
  show ?case
    unfolding rb
    using ih lt unfolding c1(2) st1 tot1
    by (simp add: ac_simps)
qed

lemma runSome_iteration_replicate_passing:
  assumes "0 \<le> idx" and "idx < int (length (tests s))"
      and "func (tests s ! nat idx) = replicate k (Check (Returns True) p e l)"
      and "counter_synced s"
  shows "counter_synced (snd (runSome_iteration idx s)) \<and>
         tests (snd (runSome_iteration idx s)) = tests s \<and>
         stats (snd (runSome_iteration idx s)) = stats s @ [\<lparr>passes = of_nat k, fails = 0\<rparr>] \<and>
         totalStats (snd (runSome_iteration idx s)) =
           (totalStats s)\<lparr>passes := passes (totalStats s) + of_nat k\<rparr>"
proof -
  let ?t = "tests s ! nat idx"
  let ?s2 = "emit (TestHeader ?t) (startTest s)"
  let ?s3 = "snd (run_body (func ?t) ?s2)"
  have cr: "counter_in_range ?s2"
    using counter_in_range_startTest [OF assms(4)] by simp
  have cn: "nat (counter ?s2) = length (stats s)"
    using assms(4) by (simp add: counter_synced_def)
  from run_body_replicate_passing [OF cr, of k p e l]
  have rb: "fst (run_body (func ?t) ?s2) = None"
    and tot: "totalStats ?s3 = (totalStats s)\<lparr>passes := passes (totalStats s) + of_nat k\<rparr>"
    and st: "stats ?s3 = stats s @ [\<lparr>passes = of_nat k, fails = 0\<rparr>]"
    unfolding assms(3) cn by (simp_all add: newTestStats_def)
  obtain s3 where rbq: "run_body (func ?t) ?s2 = (None, s3)"
    using rb by (cases "run_body (func ?t) ?s2") auto
  have s3: "s3 = ?s3" unfolding rbq by simp
  have "try_test ?t ?s2 = (None, ?t\<lparr>duration := Elapsed\<rparr>, s3)"
    unfolding try_test_def rbq by simp
  then have "try_test ?t ?s2 = (None, ?t\<lparr>duration := Elapsed\<rparr>, ?s3)"
    by (simp only: s3)
  from runSome_iteration_unfold [OF assms(1) assms(2) this]
  have it: "snd (runSome_iteration idx s) =
              emit (TestFooter (?t\<lparr>duration := Elapsed\<rparr>) (currentTestStats ?s3)) ?s3"
    by simp
  have sy: "counter_synced ?s3"
    using run_body_frame [of "func ?t" ?s2] assms(4) by (simp add: counter_synced_def)
  have ts: "tests ?s3 = tests s"
    using run_body_frame [of "func ?t" ?s2] by simp
  show ?thesis
    unfolding it using tot st sy ts by (simp add: counter_synced_def)
qed

lemma run_two_long_tests:
  "stats (snd (run Mode_Continue
      (addTests [(n1, replicate k (Check (Returns True) p e l), f1),
                 (n2, replicate k (Check (Returns True) p e l), f2)] (newTestSuite nm)))) =
     [\<lparr>passes = of_nat k, fails = 0\<rparr>, \<lparr>passes = of_nat k, fails = 0\<rparr>] \<and>
   totalStats (snd (run Mode_Continue
      (addTests [(n1, replicate k (Check (Returns True) p e l), f1),
                 (n2, replicate k (Check (Returns True) p e l), f2)] (newTestSuite nm)))) =
     \<lparr>passes = of_nat k + of_nat k, fails = 0\<rparr>"
proof -
  let ?b = "replicate k (Check (Returns True) p e l)"
  let ?S = "addTests [(n1, ?b, f1), (n2, ?b, f2)] (newTestSuite nm)"
  let ?B = "runSome_begin Mode_Continue ?S"
  let ?I0 = "snd (runSome_iteration 0 ?B)"
  let ?I1 = "snd (runSome_iteration 1 ?I0)"
  have sB: "counter_synced ?B" "stats ?B = []" "totalStats ?B = \<lparr>passes = 0, fails = 0\<rparr>"
    by (simp_all add: counter_synced_def addTest_def newTestSuite_def newTestStats_def)
  have f0: "func (tests ?B ! nat 0) = ?b" and f1: "func (tests ?B ! nat 1) = ?b"
    by simp_all
  have l0: "(0::int) \<le> 0" "0 < int (length (tests ?B))" by simp_all
  from runSome_iteration_replicate_passing [OF l0 f0 sB(1)]
  have i0: "counter_synced ?I0" "tests ?I0 = tests ?B"
    "stats ?I0 = [\<lparr>passes = of_nat k, fails = 0\<rparr>]"
    "totalStats ?I0 = \<lparr>passes = of_nat k, fails = 0\<rparr>"
    unfolding sB by simp_all
  have l1: "(0::int) \<le> 1" "1 < int (length (tests ?I0))"
    unfolding i0(2) by simp_all
  have f1': "func (tests ?I0 ! nat 1) = ?b" unfolding i0(2) by (rule f1)
  from runSome_iteration_replicate_passing [OF l1 f1' i0(1)]
  have i1: "stats ?I1 = [\<lparr>passes = of_nat k, fails = 0\<rparr>, \<lparr>passes = of_nat k, fails = 0\<rparr>]"
    "totalStats ?I1 = \<lparr>passes = of_nat k + of_nat k, fails = 0\<rparr>"
    unfolding i0 by simp_all
  have rn: "snd (run Mode_Continue ?S) =
              emit (TestSuiteEnd (suiteName ?I1) (totalTestStats ?I1)) ?I1"
    by (simp add: run_def runSome_foldl Let_def)
  show ?thesis unfolding rn using i1 by simp
qed

text \<open>
  Claim C4 says that at every point of a run the total counters equal the elementwise sum
  of the per-test counters of the run. The counters are C++ \<^verbatim>\<open>int\<close>s and the total wraps
  where the per-test counters do not. In the run below two tests make \<open>1073741824\<close>
  passing checks each: each per-test pass counter holds \<open>1073741824\<close>, their sum is
  \<open>2147483648\<close>, and the total pass counter holds \<open>-2147483648\<close>.
\<close>

theorem totals_as_numbers_counterexample:
  "map (\<lambda>x. sint (passes x))
     (stats (snd (run Mode_Continue
        (addTests [(''a'', replicate 1073741824 (Check (Returns True) Continue ''x'' 1), ''t.cpp''),
                   (''b'', replicate 1073741824 (Check (Returns True) Continue ''x'' 1), ''t.cpp'')]
           (newTestSuite ''S''))))) = [1073741824, 1073741824] \<and>
   sint (passes (totalStats (snd (run Mode_Continue
        (addTests [(''a'', replicate 1073741824 (Check (Returns True) Continue ''x'' 1), ''t.cpp''),
                   (''b'', replicate 1073741824 (Check (Returns True) Continue ''x'' 1), ''t.cpp'')]
           (newTestSuite ''S'')))))) = - 2147483648"
proof -
  note r = run_two_long_tests
    [where k = 1073741824 and p = Continue and e = "''x''" and l = 1 and nm = "''S''"
       and ?n1.0 = "''a''" and ?n2.0 = "''b''" and ?f1.0 = "''t.cpp''" and ?f2.0 = "''t.cpp''"]
  show ?thesis
    unfolding r [THEN conjunct1] r [THEN conjunct2] by simp
qed

text \<open>
  Claim C4, amended. Let a run start on a suite \<open>s0\<close> that satisfies the invariant of
  \<^verbatim>\<open>counter\<close> and \<^verbatim>\<open>stats_\<close> (a new suite, or one left by earlier runs), and let \<open>n\<close> be
  the number of per-test statistics it holds. The statements before the loop reset the
  total statistics to zero (state \<open>b\<close>). From then on the total statistics equal the
  elementwise sum of the per-test statistics the run has made, the sum taken as the
  counters count, in 32-bit arithmetic: before the loop, after the tests of any sequence
  \<open>testIdx\<close> of requested indices (state \<open>l\<close>, so after every prefix of the requested
  ones), within the next test after any statements \<open>body\<close> of it (state \<open>i\<close>, so after
  every prefix of its body), and when \<^verbatim>\<open>runSome\<close> or \<^verbatim>\<open>run\<close> has returned. At each of these
  points the totals equal the sums as numbers too, provided the sums of the per-test
  counters are values of an \<^verbatim>\<open>int\<close>. At a point within a test an assertion that passes adds
  one to the total and to the current pass counter and leaves the fail counters; an
  assertion that fails or meets an unexpected exception adds one to the total and to the
  current fail counter and leaves the pass counters (a mismatch in \<^verbatim>\<open>equal\<close> that throws
  is not part of this sentence); and a call of \<^verbatim>\<open>passed()\<close> or \<^verbatim>\<open>failed()\<close> adds one to
  the total and to the current counter of its kind.
\<close>

theorem totals_agree_throughout_run:
  assumes "counter_synced s0"
      and "n = length (stats s0)"
      and "b = runSome_begin m s0"
      and "l = snd (runSome_loop testIdx b)"
      and "i = snd (run_body body (emit (TestHeader test) (startTest l)))"
  shows "totalStats b = \<lparr>passes = 0, fails = 0\<rparr> \<and>
         totals_agree n b \<and>
         totals_agree n l \<and>
         (sums_fit n l \<longrightarrow> totals_agree_as_numbers n l) \<and>
         totals_agree n i \<and>
         (sums_fit n i \<longrightarrow> totals_agree_as_numbers n i) \<and>
         (passing st \<longrightarrow>
            passes (totalStats (snd (exec_stmt st i))) = passes (totalStats i) + 1 \<and>
            passes (currentTestStats (snd (exec_stmt st i))) = passes (currentTestStats i) + 1 \<and>
            fails (totalStats (snd (exec_stmt st i))) = fails (totalStats i) \<and>
            fails (currentTestStats (snd (exec_stmt st i))) = fails (currentTestStats i)) \<and>
         (failing st \<and> \<not> mismatch_throws m st \<or> erroring st \<longrightarrow>
            fails (totalStats (snd (exec_stmt st i))) = fails (totalStats i) + 1 \<and>
            fails (currentTestStats (snd (exec_stmt st i))) = fails (currentTestStats i) + 1 \<and>
            passes (totalStats (snd (exec_stmt st i))) = passes (totalStats i) \<and>
            passes (currentTestStats (snd (exec_stmt st i))) = passes (currentTestStats i)) \<and>
         passes (totalStats (snd (passed i))) = passes (totalStats i) + 1 \<and>
         passes (currentTestStats (snd (passed i))) = passes (currentTestStats i) + 1 \<and>
         fails (totalStats (snd (failed i))) = fails (totalStats i) + 1 \<and>
         fails (currentTestStats (snd (failed i))) = fails (currentTestStats i) + 1 \<and>
         totals_agree n (snd (runSome m testIdx s0)) \<and>
         (sums_fit n (snd (runSome m testIdx s0)) \<longrightarrow>
            totals_agree_as_numbers n (snd (runSome m testIdx s0))) \<and>
         totals_agree n (snd (run m s0)) \<and>
         (sums_fit n (snd (run m s0)) \<longrightarrow> totals_agree_as_numbers n (snd (run m s0)))"
proof -
  have b: "between_tests n b" unfolding assms(2) assms(3) by (rule between_begin [OF assms(1)])
  have l: "between_tests n l" unfolding assms(4) by (rule between_loop [OF b])
  have "within_test n (emit (TestHeader test) (startTest l))"
    using between_startTest [OF l] by simp
  then have i: "within_test n i" unfolding assms(5) by (rule within_test_body)
  have cr: "counter_in_range i" by (rule within_test_range(1) [OF i])
  have md: "mode i = m"
    unfolding assms(5) assms(4) assms(3)
    using run_body_frame
            [of body "emit (TestHeader test)
                        (startTest (snd (runSome_loop testIdx (runSome_begin m s0))))"]
          runSome_loop_frame [of testIdx "runSome_begin m s0"]
    by simp
  have c1: "totalStats b = \<lparr>passes = 0, fails = 0\<rparr>"
    unfolding assms(3) by (simp add: newTestStats_def)
  have c2: "totals_agree n b" using b by (simp add: between_tests_def)
  have c3: "totals_agree n l" using l by (simp add: between_tests_def)
  have c4: "sums_fit n l \<longrightarrow> totals_agree_as_numbers n l"
    using totals_agree_numbers [OF c3] by blast
  have c5: "totals_agree n i" using i by (simp add: within_test_def)
  have c6: "sums_fit n i \<longrightarrow> totals_agree_as_numbers n i"
    using totals_agree_numbers [OF c5] by blast
  have c7: "passing st \<longrightarrow>
            passes (totalStats (snd (exec_stmt st i))) = passes (totalStats i) + 1 \<and>
            passes (currentTestStats (snd (exec_stmt st i))) = passes (currentTestStats i) + 1 \<and>
            fails (totalStats (snd (exec_stmt st i))) = fails (totalStats i) \<and>
            fails (currentTestStats (snd (exec_stmt st i))) = fails (currentTestStats i)"
    using passing_counts [of st i] cr by blast
  have c8: "failing st \<and> \<not> mismatch_throws m st \<or> erroring st \<longrightarrow>
            fails (totalStats (snd (exec_stmt st i))) = fails (totalStats i) + 1 \<and>
            fails (currentTestStats (snd (exec_stmt st i))) = fails (currentTestStats i) + 1 \<and>
            passes (totalStats (snd (exec_stmt st i))) = passes (totalStats i) \<and>
            passes (currentTestStats (snd (exec_stmt st i))) = passes (currentTestStats i)"
    using failing_counts [of st i] cr md by blast
  have c9: "passes (totalStats (snd (passed i))) = passes (totalStats i) + 1" by simp
  have c10: "passes (currentTestStats (snd (passed i))) = passes (currentTestStats i) + 1"
    by (rule passed_current(1) [OF cr])
  have c11: "fails (totalStats (snd (failed i))) = fails (totalStats i) + 1" by simp
  have c12: "fails (currentTestStats (snd (failed i))) = fails (currentTestStats i) + 1"
    by (rule failed_current(1) [OF cr])
  have c13: "totals_agree n (snd (runSome m testIdx s0))"
    unfolding assms(2)
    using between_runSome [OF assms(1), of m testIdx] by (simp add: between_tests_def)
  have c14: "sums_fit n (snd (runSome m testIdx s0)) \<longrightarrow>
            totals_agree_as_numbers n (snd (runSome m testIdx s0))"
    using totals_agree_numbers [OF c13] by blast
  have c15: "totals_agree n (snd (run m s0))"
    unfolding assms(2)
    using between_runSome [OF assms(1), of m "map int [0 ..< length (tests s0)]"]
    by (simp add: between_tests_def run_def)
  have c16: "sums_fit n (snd (run m s0)) \<longrightarrow> totals_agree_as_numbers n (snd (run m s0))"
    using totals_agree_numbers [OF c15] by blast
  show ?thesis
    using c1 c2 c3 c4 c5 c6 c7 c8 c9 c10 c11 c12 c13 c14 c15 c16 by blast
qed


theorem totals_agree_throughout_run_witness:
  "totals_agree (length (stats (snd (run Mode_Continue
        (addTest ''A'' [Check (Returns True) Continue ''a'' 1, Check (Returns False) Continue ''b'' 2]
           ''t.cpp'' (newTestSuite ''S'')))))) (snd (run Mode_Continue (snd (run Mode_Continue
        (addTest ''A'' [Check (Returns True) Continue ''a'' 1, Check (Returns False) Continue ''b'' 2]
           ''t.cpp'' (newTestSuite ''S'')))))) \<and>
   totals_agree_as_numbers (length (stats (snd (run Mode_Continue
        (addTest ''A'' [Check (Returns True) Continue ''a'' 1, Check (Returns False) Continue ''b'' 2]
           ''t.cpp'' (newTestSuite ''S'')))))) (snd (run Mode_Continue (snd (run Mode_Continue
        (addTest ''A'' [Check (Returns True) Continue ''a'' 1, Check (Returns False) Continue ''b'' 2]
           ''t.cpp'' (newTestSuite ''S'')))))) \<and>
   totalStats (snd (run Mode_Continue (snd (run Mode_Continue
        (addTest ''A'' [Check (Returns True) Continue ''a'' 1, Check (Returns False) Continue ''b'' 2]
           ''t.cpp'' (newTestSuite ''S'')))))) = \<lparr>passes = 1, fails = 1\<rparr> \<and>
   stats (snd (run Mode_Continue (snd (run Mode_Continue
        (addTest ''A'' [Check (Returns True) Continue ''a'' 1, Check (Returns False) Continue ''b'' 2]
           ''t.cpp'' (newTestSuite ''S'')))))) = [\<lparr>passes = 1, fails = 1\<rparr>, \<lparr>passes = 1, fails = 1\<rparr>] \<and>
   fails (totalStats (snd (exec_stmt (Check (Returns False) Continue ''b'' 2) (snd (run_body [Check (Returns True) Continue ''a'' 1]
        (emit (TestHeader \<lparr>fileName = ''t.cpp'', name = ''A'', func = [], index = 1,
            aborted = False, duration = Indeterminate\<rparr>)
           (startTest (snd (runSome_loop [] (runSome_begin Mode_Continue (snd (run Mode_Continue
        (addTest ''A'' [Check (Returns True) Continue ''a'' 1, Check (Returns False) Continue ''b'' 2]
           ''t.cpp'' (newTestSuite ''S'')))))))))))))) =
   fails (totalStats (snd (run_body [Check (Returns True) Continue ''a'' 1]
        (emit (TestHeader \<lparr>fileName = ''t.cpp'', name = ''A'', func = [], index = 1,
            aborted = False, duration = Indeterminate\<rparr>)
           (startTest (snd (runSome_loop [] (runSome_begin Mode_Continue (snd (run Mode_Continue
        (addTest ''A'' [Check (Returns True) Continue ''a'' 1, Check (Returns False) Continue ''b'' 2]
           ''t.cpp'' (newTestSuite ''S'')))))))))))) + 1"
proof -
  let ?S = "addTest ''A'' [Check (Returns True) Continue ''a'' 1, Check (Returns False) Continue ''b'' 2]
              ''t.cpp'' (newTestSuite ''S'')"
  let ?s0 = "snd (run Mode_Continue ?S)"
  let ?st = "Check (Returns False) Continue ''b'' 2"
  have "counter_synced ?S" by (simp add: newTestSuite_counter_synced)
  then have h: "counter_synced ?s0"
    unfolding run_def by (rule runSome_counter_synced)
  note T = totals_agree_throughout_run
    [OF h refl refl refl refl,
     where m = Mode_Continue and testIdx = "[]" and st = ?st
       and body = "[Check (Returns True) Continue ''a'' 1]"
       and test = "\<lparr>fileName = ''t.cpp'', name = ''A'', func = [], index = 1,
                     aborted = False, duration = Indeterminate\<rparr>"]
  have ln: "length (stats ?s0) = 1" by (simp add: run_eval)
  have b: "totalStats (snd (run Mode_Continue ?s0)) = \<lparr>passes = 1, fails = 1\<rparr>"
    by (simp add: run_eval)
  have c: "stats (snd (run Mode_Continue ?s0)) =
             [\<lparr>passes = 1, fails = 1\<rparr>, \<lparr>passes = 1, fails = 1\<rparr>]"
    by (simp add: run_eval)
  have fit: "sums_fit (length (stats ?s0)) (snd (run Mode_Continue ?s0))"
    unfolding ln by (simp add: sums_fit_def sumPasses_def sumFails_def c)
  have fl: "failing ?st \<and> \<not> mismatch_throws Mode_Continue ?st \<or> erroring ?st" by simp
  show ?thesis using T fit fl b c by blast
qed

end
